theory Spec2Isabelle
  imports Complex_Main "HOL-Library.Sublist" "HOL-Library.Log_Nat"
begin


section \<open>Strings\<close>

text \<open>
  A Python \<open>str\<close> is modelled as a \<open>string\<close> holding its UTF-8 encoding, so that the
  Cyrillic tokens of \<open>constants.py\<close> are ordinary values. ASCII characters are single
  bytes and never occur inside a longer sequence, which keeps indexing by the quote
  characters, the operators and the identifier characters exact.
\<close>

definition ascii_space :: "char \<Rightarrow> bool" where
  "ascii_space c = (of_char c \<in> {9::nat, 10, 11, 12, 13, 28, 29, 30, 31, 32})"

definition space2 :: "char \<Rightarrow> char \<Rightarrow> bool" where
  \<comment> \<open>U+0085 and U+00A0\<close>
  "space2 a b = (of_char a = (0xC2::nat) \<and> of_char b \<in> {0x85::nat, 0xA0})"

definition space3 :: "char \<Rightarrow> char \<Rightarrow> char \<Rightarrow> bool" where
  \<comment> \<open>U+1680, U+2000..U+200A, U+2028, U+2029, U+202F, U+205F, U+3000\<close>
  "space3 a b c =
     (let x = of_char a :: nat; y = of_char b :: nat; z = of_char c :: nat in
        (x = 0xE1 \<and> y = 0x9A \<and> z = 0x80) \<or>
        (x = 0xE2 \<and> y = 0x80 \<and> ((0x80 \<le> z \<and> z \<le> 0x8A) \<or> z = 0xA8 \<or> z = 0xA9 \<or> z = 0xAF)) \<or>
        (x = 0xE2 \<and> y = 0x81 \<and> z = 0x9F) \<or>
        (x = 0xE3 \<and> y = 0x80 \<and> z = 0x80))"

text \<open>
  \<open>strip_front s1 s2 s3\<close> removes leading white space, given the tests for white space of
  one, two and three bytes. \<open>str.lstrip()\<close> uses the tests above; \<open>str.rstrip()\<close> is
  the same scan on the reversed string with the byte order of the tests reversed.
\<close>

fun strip_front ::
  "(char \<Rightarrow> bool) \<Rightarrow> (char \<Rightarrow> char \<Rightarrow> bool) \<Rightarrow> (char \<Rightarrow> char \<Rightarrow> char \<Rightarrow> bool) \<Rightarrow> string \<Rightarrow> string"
where
  "strip_front s1 s2 s3 (a # b # c # cs) =
     (if s1 a then strip_front s1 s2 s3 (b # c # cs)
      else if s2 a b then strip_front s1 s2 s3 (c # cs)
      else if s3 a b c then strip_front s1 s2 s3 cs
      else a # b # c # cs)"
| "strip_front s1 s2 s3 [a, b] =
     (if s1 a then strip_front s1 s2 s3 [b]
      else if s2 a b then []
      else [a, b])"
| "strip_front s1 s2 s3 [a] = (if s1 a then [] else [a])"
| "strip_front s1 s2 s3 [] = []"

definition lstrip :: "string \<Rightarrow> string" where
  "lstrip s = strip_front ascii_space space2 space3 s"

definition rstrip :: "string \<Rightarrow> string" where
  "rstrip s = rev (strip_front ascii_space (\<lambda>a b. space2 b a) (\<lambda>a b c. space3 c b a) (rev s))"

definition strip :: "string \<Rightarrow> string" where
  "strip s = rstrip (lstrip s)"

text \<open>
  \<open>str.lower()\<close>: exact on ASCII and on the Cyrillic block U+0400..U+042F (lead byte
  \<open>0xD0\<close>); every other byte is copied. The source only ever compares a lowered string
  with a fixed token made of ASCII letters, digits or the Cyrillic letters of
  \<open>BOOL_TRUE\<close> and \<open>BOOL_FALSE\<close>, and no character outside these two ranges lowers to
  one of those letters, so the comparisons of the source come out as in Python.
\<close>

definition lower_ascii :: "char \<Rightarrow> char" where
  "lower_ascii c =
     (let n = of_char c :: nat in if 65 \<le> n \<and> n \<le> 90 then char_of (n + 32) else c)"

fun lower :: "string \<Rightarrow> string" where
  "lower (a # b # cs) =
     (let x = of_char a :: nat; y = of_char b :: nat in
        if x = 0xD0 \<and> 0x80 \<le> y \<and> y \<le> 0x8F then char_of (0xD1::nat) # char_of (y + 0x10) # lower cs
        else if x = 0xD0 \<and> 0x90 \<le> y \<and> y \<le> 0x9F then a # char_of (y + 0x20) # lower cs
        else if x = 0xD0 \<and> 0xA0 \<le> y \<and> y \<le> 0xAF then char_of (0xD1::nat) # char_of (y - 0x20) # lower cs
        else lower_ascii a # lower (b # cs))"
| "lower [a] = [lower_ascii a]"
| "lower [] = []"

definition is_digit :: "char \<Rightarrow> bool" where
  "is_digit c = (c \<in> set ''0123456789'')"

definition digit_val :: "char \<Rightarrow> int" where
  "digit_val c = int (of_char c) - 48"

definition ident_start :: "char \<Rightarrow> bool" where
  "ident_start c = (c \<in> set ''ABCDEFGHIJKLMNOPQRSTUVWXYZabcdefghijklmnopqrstuvwxyz_'')"

definition ident_char :: "char \<Rightarrow> bool" where
  "ident_char c = (ident_start c \<or> is_digit c)"

text \<open>
  \<open>_IDENTIFIER_RE.match(name)\<close> for \<open>^[A-Za-z_][A-Za-z0-9_]*$\<close>: in Python \<open>$\<close> also
  matches just before a final newline.
\<close>

definition is_identifier :: "string \<Rightarrow> bool" where
  "is_identifier s =
     (let t = (if s \<noteq> [] \<and> last s = CHR 0x0A then butlast s else s)
      in t \<noteq> [] \<and> ident_start (hd t) \<and> list_all ident_char (tl t))"


section \<open>Errors and values\<close>

text \<open>
  The exception classes of both packages and the built-in exceptions that their code can
  let through. Both packages define a class named \<open>SchemaError\<close>; they are one
  constructor here. Messages are not modelled. \<open>NotModelled\<close> is no exception of the
  program: it marks the evaluation of a syntax node whose semantics is left out, and no
  expression that passes the validation of \<open>where.py\<close> reaches it.
\<close>

datatype error =
    ParseError | TableExistsError | TableNotFoundError | SchemaError | ValidationError
  | StorageError | WhereError | TypeErrorDB | EngineError
  | PyTypeError | PyNameError | PyKeyError | PySyntaxError | PyValueError
  | NotModelled

text \<open>
  A Python \<open>float\<close> is a binary64 value: a finite value is kept as the rational it
  denotes, with the negative zero apart.
\<close>

datatype pyfloat = Fin rat | NegZero | PInf | NInf | NaN

text \<open>
  The scalar values of a record, and the empty dictionary, which is the value that the
  global name \<open>__builtins__\<close> has inside the \<open>eval\<close> of \<open>where.py\<close>.
\<close>

datatype pyval = VNone | VBool bool | VInt int | VFloat pyfloat | VStr string | VEmptyDict


section \<open>The numeric parsers of the host language\<close>

text \<open>
  \<open>int(s)\<close> and \<open>float(s)\<close> on a \<open>str\<close>: white space around the literal is dropped
  (the C white space \<open>\t\n\v\f\r\<close> and space, and every non-ASCII white space), one
  underscore may stand between two digits, and anything else that is not part of the
  literal makes the call raise \<open>ValueError\<close>, which is \<open>None\<close> here. Decimal digits of
  other scripts, which both functions also accept, are not modelled: they are rejected.
\<close>

definition c_space :: "char \<Rightarrow> bool" where
  "c_space c = (of_char c \<in> {9::nat, 10, 11, 12, 13, 32})"

definition strip_numeric :: "string \<Rightarrow> string" where
  "strip_numeric s =
     rev (strip_front c_space (\<lambda>a b. space2 b a) (\<lambda>a b c. space3 c b a)
       (rev (strip_front c_space space2 space3 s)))"

fun drop_underscores :: "bool \<Rightarrow> string \<Rightarrow> string option" where
  "drop_underscores p [] = Some []"
| "drop_underscores p (c # cs) =
     (if c = CHR ''_'' then
        (if p \<and> cs \<noteq> [] \<and> is_digit (hd cs) then drop_underscores False cs else None)
      else map_option ((#) c) (drop_underscores (is_digit c) cs))"

definition digits_val :: "string \<Rightarrow> int" where
  "digits_val ds = foldl (\<lambda>acc c. acc * 10 + digit_val c) 0 ds"

definition split_sign :: "string \<Rightarrow> bool \<times> string" where
  "split_sign s =
     (case s of
        c # cs \<Rightarrow> if c = CHR ''-'' then (True, cs) else if c = CHR ''+'' then (False, cs) else (False, s)
      | [] \<Rightarrow> (False, s))"

definition py_int :: "string \<Rightarrow> int option" where
  "py_int s =
     (let (neg, body) = split_sign (strip_numeric s) in
        case drop_underscores False body of
          None \<Rightarrow> None
        | Some ds \<Rightarrow>
            if ds \<noteq> [] \<and> list_all is_digit ds
            then Some (if neg then - digits_val ds else digits_val ds)
            else None)"

definition pow2 :: "int \<Rightarrow> rat" where
  "pow2 k = (if 0 \<le> k then 2 ^ nat k else 1 / 2 ^ nat (- k))"

definition pow10 :: "int \<Rightarrow> rat" where
  "pow10 k = (if 0 \<le> k then 10 ^ nat k else 1 / 10 ^ nat (- k))"

definition floor_log2 :: "rat \<Rightarrow> int" where
  \<comment> \<open>for \<open>0 < q\<close>: the largest \<open>e\<close> with \<open>2 ^ e \<le> q\<close>\<close>
  "floor_log2 q =
     (let (a, b) = quotient_of q; k = bitlen a - bitlen b
      in if pow2 k \<le> q then k else k - 1)"

definition round_half_even :: "rat \<Rightarrow> int" where
  "round_half_even q =
     (let f = \<lfloor>q\<rfloor>; d = q - of_int f
      in if d < 1 / 2 then f else if 1 / 2 < d then f + 1 else if even f then f else f + 1)"

definition round_binary64 :: "rat \<Rightarrow> pyfloat" where
  \<comment> \<open>for \<open>0 \<le> q\<close>: the nearest binary64 value, ties to even\<close>
  "round_binary64 q =
     (if q = 0 then Fin 0
      else
        let e = max (floor_log2 q) (- 1022);
            m = round_half_even (q / pow2 (e - 52));
            v = of_int m * pow2 (e - 52)
        in if pow2 1024 \<le> v then PInf else Fin v)"

fun negate :: "pyfloat \<Rightarrow> pyfloat" where
  "negate (Fin q) = (if q = 0 then NegZero else Fin (- q))"
| "negate NegZero = Fin 0"
| "negate PInf = NInf"
| "negate NInf = PInf"
| "negate NaN = NaN"

definition parse_exponent :: "string \<Rightarrow> int option" where
  "parse_exponent s =
     (let (neg, ds) = split_sign s in
        if ds \<noteq> [] \<and> list_all is_digit ds
        then Some (if neg then - digits_val ds else digits_val ds)
        else None)"

definition parse_decimal :: "string \<Rightarrow> rat option" where
  "parse_decimal s =
     (let ip = takeWhile is_digit s; r1 = dropWhile is_digit s;
          fp = (case r1 of c # t \<Rightarrow> if c = CHR ''.'' then takeWhile is_digit t else [] | [] \<Rightarrow> []);
          r2 = (case r1 of c # t \<Rightarrow> if c = CHR ''.'' then dropWhile is_digit t else r1 | [] \<Rightarrow> [])
      in if ip = [] \<and> fp = [] then None
         else
           (case r2 of
              [] \<Rightarrow> Some (of_int (digits_val (ip @ fp)) * pow10 (- int (length fp)))
            | c # t \<Rightarrow>
                if c = CHR ''e'' \<or> c = CHR ''E'' then
                  (case parse_exponent t of
                     None \<Rightarrow> None
                   | Some x \<Rightarrow> Some (of_int (digits_val (ip @ fp)) * pow10 (x - int (length fp))))
                else None))"

definition py_float :: "string \<Rightarrow> pyfloat option" where
  "py_float s =
     (case drop_underscores False (strip_numeric s) of
        None \<Rightarrow> None
      | Some t \<Rightarrow>
          let (neg, body) = split_sign t; w = lower body in
            if w = ''inf'' \<or> w = ''infinity'' then Some (if neg then NInf else PInf)
            else if w = ''nan'' then Some NaN
            else
              (case parse_decimal body of
                 None \<Rightarrow> None
               | Some q \<Rightarrow> Some (if neg then negate (round_binary64 q) else round_binary64 q)))"

section \<open>Scalar coercion\<close>

subsection \<open>\<open>primitive_db/constants.py\<close> and \<open>primitive_db/utils.py\<close>\<close>

definition SUPPORTED_TYPES :: "string list" where
  "SUPPORTED_TYPES = [''int'', ''float'', ''str'', ''bool'']"

definition BOOL_TRUE :: "string list" where
  "BOOL_TRUE = [''true'', ''1'', ''yes'', ''y'',
     [CHR 0xD0, CHR 0xB4, CHR 0xD0, CHR 0xB0], [CHR 0xD0, CHR 0xB4]]"

definition BOOL_FALSE :: "string list" where
  "BOOL_FALSE = [''false'', ''0'', ''no'', ''n'',
     [CHR 0xD0, CHR 0xBD, CHR 0xD0, CHR 0xB5, CHR 0xD1, CHR 0x82], [CHR 0xD0, CHR 0xBD]]"

definition ensure_identifier :: "string \<Rightarrow> error + string" where
  "ensure_identifier name = (if \<not> is_identifier name then Inl ValidationError else Inr name)"

definition strip_quotes :: "string \<Rightarrow> string" where
  "strip_quotes v0 =
     (let v = strip v0 in
        if 2 \<le> length v \<and> hd v = last v \<and> (hd v = CHR 0x27 \<or> hd v = CHR 0x22)
        then butlast (tl v) else v)"

definition parse_scalar :: "string \<Rightarrow> string \<Rightarrow> error + pyval" where
  "parse_scalar raw0 type_name =
     (let raw = strip raw0 in
        if lower raw \<in> {''null'', ''none''} then Inr VNone
        else if type_name = ''str'' then Inr (VStr (strip_quotes raw))
        else if type_name = ''bool'' then
          (let lowered = lower (strip (strip_quotes raw)) in
             if lowered \<in> set BOOL_TRUE then Inr (VBool True)
             else if lowered \<in> set BOOL_FALSE then Inr (VBool False)
             else Inl ValidationError)
        else if type_name = ''int'' then
          (case py_int (strip_quotes raw) of
             Some n \<Rightarrow> Inr (VInt n)
           | None \<Rightarrow> Inl ValidationError)
        else if type_name = ''float'' then
          (case py_float (strip_quotes raw) of
             Some x \<Rightarrow> Inr (VFloat x)
           | None \<Rightarrow> Inl ValidationError)
        else Inl SchemaError)"

subsection \<open>\<open>simple_json_db/types.py\<close>\<close>

definition to_bool :: "string \<Rightarrow> error + bool" where
  "to_bool raw =
     (let v = lower (strip raw) in
        if v \<in> {''true'', ''1'', ''yes'', ''y''} then Inr True
        else if v \<in> {''false'', ''0'', ''no'', ''n''} then Inr False
        else Inl TypeErrorDB)"

text \<open>
  \<open>cast_value\<close> looks the type up in its own \<open>SUPPORTED_TYPES\<close> table (the same four
  names) and turns every exception of the cast into \<open>TypeErrorDB\<close>.
\<close>

definition cast_value :: "string \<Rightarrow> string \<Rightarrow> error + pyval" where
  "cast_value type_name raw =
     (if type_name \<notin> set SUPPORTED_TYPES then Inl TypeErrorDB
      else if type_name = ''str'' then Inr (VStr raw)
      else if type_name = ''int'' then
        (case py_int raw of Some n \<Rightarrow> Inr (VInt n) | None \<Rightarrow> Inl TypeErrorDB)
      else if type_name = ''float'' then
        (case py_float raw of Some x \<Rightarrow> Inr (VFloat x) | None \<Rightarrow> Inl TypeErrorDB)
      else
        (case to_bool raw of Inr b \<Rightarrow> Inr (VBool b) | Inl e \<Rightarrow> Inl TypeErrorDB))"

section \<open>Comparison of values in the host language\<close>

text \<open>
  \<open>==\<close> and the ordering operators on the scalar values a record holds. \<open>bool\<close>, \<open>int\<close>
  and \<open>float\<close> compare by their exact numeric value (\<open>True\<close> is 1, a NaN is unequal to and
  unordered with everything), strings compare by code point, which is byte order in
  UTF-8. \<open>==\<close> between other pairs is \<open>False\<close>; an ordering between other pairs raises
  \<open>TypeError\<close>.
\<close>

datatype num = NumNaN | NumNInf | NumFin rat | NumPInf

fun num_of_float :: "pyfloat \<Rightarrow> num" where
  "num_of_float (Fin q) = NumFin q"
| "num_of_float NegZero = NumFin 0"
| "num_of_float PInf = NumPInf"
| "num_of_float NInf = NumNInf"
| "num_of_float NaN = NumNaN"

fun num_of :: "pyval \<Rightarrow> num option" where
  "num_of VNone = None"
| "num_of (VBool b) = Some (NumFin (if b then 1 else 0))"
| "num_of (VInt i) = Some (NumFin (of_int i))"
| "num_of (VFloat x) = Some (num_of_float x)"
| "num_of (VStr s) = None"
| "num_of VEmptyDict = None"

fun num_lt :: "num \<Rightarrow> num \<Rightarrow> bool" where
  "num_lt (NumFin x) (NumFin y) = (x < y)"
| "num_lt NumNInf (NumFin y) = True"
| "num_lt NumNInf NumPInf = True"
| "num_lt (NumFin x) NumPInf = True"
| "num_lt _ _ = False"

definition num_eq :: "num \<Rightarrow> num \<Rightarrow> bool" where
  "num_eq a b = (a \<noteq> NumNaN \<and> a = b)"

fun str_lt :: "string \<Rightarrow> string \<Rightarrow> bool" where
  "str_lt [] [] = False"
| "str_lt [] (y # ys) = True"
| "str_lt (x # xs) [] = False"
| "str_lt (x # xs) (y # ys) = (of_char x < (of_char y :: nat) \<or> (x = y \<and> str_lt xs ys))"

fun py_eq :: "pyval \<Rightarrow> pyval \<Rightarrow> bool" where
  "py_eq VNone VNone = True"
| "py_eq (VStr a) (VStr b) = (a = b)"
| "py_eq VEmptyDict VEmptyDict = True"
| "py_eq a b = (case (num_of a, num_of b) of (Some x, Some y) \<Rightarrow> num_eq x y | _ \<Rightarrow> False)"

fun py_lt :: "pyval \<Rightarrow> pyval \<Rightarrow> error + bool" where
  "py_lt (VStr a) (VStr b) = Inr (str_lt a b)"
| "py_lt a b = (case (num_of a, num_of b) of (Some x, Some y) \<Rightarrow> Inr (num_lt x y) | _ \<Rightarrow> Inl PyTypeError)"

fun py_le :: "pyval \<Rightarrow> pyval \<Rightarrow> error + bool" where
  "py_le (VStr a) (VStr b) = Inr (str_lt a b \<or> a = b)"
| "py_le a b =
     (case (num_of a, num_of b) of
        (Some x, Some y) \<Rightarrow> Inr (num_lt x y \<or> num_eq x y)
      | _ \<Rightarrow> Inl PyTypeError)"

definition py_gt :: "pyval \<Rightarrow> pyval \<Rightarrow> error + bool" where
  "py_gt a b = py_lt b a"

definition py_ge :: "pyval \<Rightarrow> pyval \<Rightarrow> error + bool" where
  "py_ge a b = py_le b a"

section \<open>Grammar A: \<open>primitive_db/utils.py\<close>\<close>

record Condition =
  field :: string
  op :: string
  raw_value :: string

text \<open>
  \<open>op in expr\<close> followed by \<open>expr.split(op, 1)\<close>: \<open>split_once\<close> is \<open>None\<close> when the
  separator does not occur, and otherwise the text before and after its first occurrence.
\<close>

fun split_once :: "string \<Rightarrow> string \<Rightarrow> (string \<times> string) option" where
  "split_once sep [] = None"
| "split_once sep (c # cs) =
     (if prefix sep (c # cs) then Some ([], drop (length sep) (c # cs))
      else map_option (\<lambda>(a, b). (c # a, b)) (split_once sep cs))"




section \<open>Grammar A: the filter of \<open>primitive_db/core.py\<close>\<close>

text \<open>
  A record is a dictionary from field names to values; \<open>row.get(field)\<close> is \<open>None\<close> for
  a missing key.
\<close>

type_synonym row = "string \<rightharpoonup> pyval"

definition get :: "row \<Rightarrow> string \<Rightarrow> pyval" where
  "get r k = (case r k of None \<Rightarrow> VNone | Some v \<Rightarrow> v)"

definition ordering :: "bool \<Rightarrow> (error + bool) \<Rightarrow> (error + bool) \<Rightarrow> error + bool" where
  \<comment> \<open>\<open>if left is None or value is None or not (left ? value): return False\<close>, else go on\<close>
  "ordering is_null cmp rest =
     (if is_null then Inr False
      else case cmp of Inl e \<Rightarrow> Inl e | Inr b \<Rightarrow> if \<not> b then Inr False else rest)"

fun match :: "row \<Rightarrow> (string \<times> string \<times> pyval) list \<Rightarrow> error + bool" where
  "match r [] = Inr True"
| "match r ((f, oper, v) # rest) =
     (let left = get r f in
        if oper = ''='' then (if \<not> py_eq left v then Inr False else match r rest)
        else if oper = ''!='' then (if py_eq left v then Inr False else match r rest)
        else if oper = ''>'' then
          ordering (left = VNone \<or> v = VNone) (py_gt left v) (match r rest)
        else if oper = ''<'' then
          ordering (left = VNone \<or> v = VNone) (py_lt left v) (match r rest)
        else if oper = ''>='' then
          ordering (left = VNone \<or> v = VNone) (py_ge left v) (match r rest)
        else if oper = ''<='' then
          ordering (left = VNone \<or> v = VNone) (py_le left v) (match r rest)
        else Inl ValidationError)"

section \<open>The table engine of \<open>primitive_db/core.py\<close>\<close>

text \<open>
  The state of a \<open>PrimitiveDB\<close> object and of the files it owns: \<open>meta\<close> is the
  \<open>tables\<close> entry of \<open>self._meta\<close> (an absent entry is the empty dictionary),
  \<open>meta_file\<close> what \<open>save_meta\<close> last wrote, \<open>versions\<close> is \<open>self._versions\<close>,
  \<open>select_cache\<close> the dictionary closed over by \<open>_make_select_cache\<close>, and
  \<open>data_files\<close> the row files (\<open>None\<close> when the file does not exist). A schema and a
  dictionary of raw values are association lists in insertion order. File operations are
  taken to succeed, and the log file and the printed lines are left out.

  A method returns its result together with the state it leaves behind; an exception,
  which \<open>handle_db_errors\<close> turns into a printed line and the result \<open>None\<close>, is the
  \<open>Inl\<close> result. The answer of the user to \<open>ask_confirm\<close> is the argument \<open>confirm\<close>.
\<close>

record table_info =
  schema :: "(string \<times> string) list"
  last_id :: "int option"

text \<open>
  The cache key holds \<open>str([(f, op, repr(v)) ...])\<close>. That rendering is injective on
  prepared conditions (\<open>repr\<close> separates the types and the values of scalars, the
  two zeros of \<open>float\<close> included), so the key is modelled by the prepared conditions
  themselves.
\<close>

type_synonym where_key = "(string \<times> string \<times> pyval) list"

record SelectResult =
  rows :: "row list"
  from_cache :: bool

record PrimitiveDB =
  meta :: "string \<rightharpoonup> table_info"
  meta_file :: "string \<rightharpoonup> table_info"
  versions :: "string \<rightharpoonup> int"
  select_cache :: "(string \<times> where_key \<times> int) \<rightharpoonup> row list"
  data_files :: "string \<rightharpoonup> row list"

definition PrimitiveDB_init :: "(string \<rightharpoonup> table_info) \<Rightarrow> (string \<rightharpoonup> row list) \<Rightarrow> PrimitiveDB" where
  "PrimitiveDB_init mf files =
     \<lparr>meta = mf, meta_file = mf,
      versions = (\<lambda>t. if t \<in> dom mf then Some 0 else None),
      select_cache = Map.empty, data_files = files\<rparr>"

definition version_of :: "PrimitiveDB \<Rightarrow> string \<Rightarrow> int" where
  \<comment> \<open>\<open>self._versions.get(table, 0)\<close>\<close>
  "version_of s table = (case versions s table of None \<Rightarrow> 0 | Some v \<Rightarrow> v)"

definition touch :: "PrimitiveDB \<Rightarrow> string \<Rightarrow> PrimitiveDB" where
  "touch s table = s\<lparr>versions := (versions s)(table \<mapsto> version_of s table + 1)\<rparr>"

definition get_table :: "PrimitiveDB \<Rightarrow> string \<Rightarrow> error + table_info" where
  "get_table s table =
     (case meta s table of None \<Rightarrow> Inl TableNotFoundError | Some info \<Rightarrow> Inr info)"

definition load_table :: "PrimitiveDB \<Rightarrow> string \<Rightarrow> row list" where
  "load_table s table = (case data_files s table of None \<Rightarrow> [] | Some rs \<Rightarrow> rs)"

fun build_schema :: "(string \<times> string) list \<Rightarrow> (string \<times> string) list \<Rightarrow> error + (string \<times> string) list" where
  "build_schema sch [] = Inr sch"
| "build_schema sch ((f, type_name) # columns) =
     (if f = ''id'' then Inl SchemaError
      else if f \<in> fst ` set sch then Inl SchemaError
      else if type_name \<notin> set SUPPORTED_TYPES then Inl SchemaError
      else build_schema (sch @ [(f, type_name)]) columns)"

definition PrimitiveDB_create_table ::
  "PrimitiveDB \<Rightarrow> string \<Rightarrow> (string \<times> string) list \<Rightarrow> (error + unit) \<times> PrimitiveDB" where
  "PrimitiveDB_create_table s table columns =
     (case ensure_identifier table of
        Inl e \<Rightarrow> (Inl e, s)
      | Inr _ \<Rightarrow>
          if table \<in> dom (meta s) then (Inl TableExistsError, s)
          else if columns = [] then (Inl SchemaError, s)
          else
            (case build_schema [] columns of
               Inl e \<Rightarrow> (Inl e, s)
             | Inr sch \<Rightarrow>
                 let m = (meta s)(table \<mapsto> \<lparr>schema = sch, last_id = Some 0\<rparr>) in
                   (Inr (),
                    s\<lparr>meta := m, meta_file := m,
                      data_files := (data_files s)(table \<mapsto> []),
                      versions := (versions s)(table \<mapsto> 0)\<rparr>)))"

definition PrimitiveDB_drop_table ::
  "PrimitiveDB \<Rightarrow> bool \<Rightarrow> string \<Rightarrow> (error + unit) \<times> PrimitiveDB" where
  "PrimitiveDB_drop_table s confirm table =
     (if \<not> confirm then (Inr (), s)
      else
        (case ensure_identifier table of
           Inl e \<Rightarrow> (Inl e, s)
         | Inr _ \<Rightarrow>
             if table \<notin> dom (meta s) then (Inl TableNotFoundError, s)
             else
               let m = (meta s)(table := None) in
                 (Inr (),
                  s\<lparr>data_files := (data_files s)(table := None),
                    meta := m, meta_file := m,
                    versions := (versions s)(table := None)\<rparr>)))"

fun coerce_conditions :: "(string \<times> string) list \<Rightarrow> Condition list \<Rightarrow> error + where_key" where
  "coerce_conditions sch [] = Inr []"
| "coerce_conditions sch (cond # conds) =
     (case (if field cond = ''id'' then Inr ''int''
            else case map_of sch (field cond) of
                   None \<Rightarrow> Inl ValidationError
                 | Some t \<Rightarrow> Inr t) of
        Inl e \<Rightarrow> Inl e
      | Inr type_name \<Rightarrow>
          (case parse_scalar (raw_value cond) type_name of
             Inl e \<Rightarrow> Inl e
           | Inr v \<Rightarrow>
               (case coerce_conditions sch conds of
                  Inl e \<Rightarrow> Inl e
                | Inr prepared \<Rightarrow> Inr ((field cond, op cond, v) # prepared))))"

definition coerce_where :: "PrimitiveDB \<Rightarrow> string \<Rightarrow> Condition list option \<Rightarrow> error + where_key" where
  "coerce_where s table wh =
     (case wh of
        None \<Rightarrow> Inr []
      | Some [] \<Rightarrow> Inr []
      | Some conds \<Rightarrow>
          (case get_table s table of
             Inl e \<Rightarrow> Inl e
           | Inr info \<Rightarrow> coerce_conditions (schema info) conds))"

text \<open>\<open>[dict(r) for r in rows if self._match(r, prepared_where)]\<close>; an exception of \<open>_match\<close> ends it.\<close>

fun filter_rows :: "where_key \<Rightarrow> row list \<Rightarrow> error + row list" where
  "filter_rows p [] = Inr []"
| "filter_rows p (r # rs) =
     (case match r p of
        Inl e \<Rightarrow> Inl e
      | Inr b \<Rightarrow>
          (case filter_rows p rs of
             Inl e \<Rightarrow> Inl e
           | Inr out \<Rightarrow> Inr (if b then r # out else out)))"

text \<open>The linear scan of \<open>select\<close>: its local function \<open>compute\<close>.\<close>

definition compute :: "PrimitiveDB \<Rightarrow> string \<Rightarrow> where_key \<Rightarrow> error + row list" where
  "compute s table prepared_where =
     (let rs = load_table s table in
        if prepared_where = [] then Inr rs else filter_rows prepared_where rs)"

definition select_cached ::
  "PrimitiveDB \<Rightarrow> string \<Rightarrow> where_key \<Rightarrow> int \<Rightarrow> (error + row list) \<Rightarrow> (error + SelectResult) \<times> PrimitiveDB" where
  "select_cached s table wkey version computed =
     (case select_cache s (table, wkey, version) of
        Some cached \<Rightarrow> (Inr \<lparr>rows = cached, from_cache = True\<rparr>, s)
      | None \<Rightarrow>
          (case computed of
             Inl e \<Rightarrow> (Inl e, s)
           | Inr rs \<Rightarrow>
               (Inr \<lparr>rows = rs, from_cache = False\<rparr>,
                s\<lparr>select_cache := (select_cache s)((table, wkey, version) \<mapsto> rs)\<rparr>)))"

definition PrimitiveDB_select ::
  "PrimitiveDB \<Rightarrow> string \<Rightarrow> Condition list option \<Rightarrow> (error + SelectResult) \<times> PrimitiveDB" where
  "PrimitiveDB_select s table wh =
     (case ensure_identifier table of
        Inl e \<Rightarrow> (Inl e, s)
      | Inr _ \<Rightarrow>
          (case get_table s table of
             Inl e \<Rightarrow> (Inl e, s)
           | Inr _ \<Rightarrow>
               (case coerce_where s table wh of
                  Inl e \<Rightarrow> (Inl e, s)
                | Inr prepared_where \<Rightarrow>
                    select_cached s table prepared_where (version_of s table)
                      (compute s table prepared_where))))"

fun coerce_row :: "(string \<times> string) list \<Rightarrow> (string \<rightharpoonup> string) \<Rightarrow> row \<Rightarrow> error + row" where
  "coerce_row [] vals r = Inr r"
| "coerce_row ((f, type_name) # sch) vals r =
     (case vals f of
        None \<Rightarrow> Inl PyKeyError
      | Some raw \<Rightarrow>
          (case parse_scalar raw type_name of
             Inl e \<Rightarrow> Inl e
           | Inr v \<Rightarrow> coerce_row sch vals (r(f \<mapsto> v))))"

definition PrimitiveDB_insert ::
  "PrimitiveDB \<Rightarrow> string \<Rightarrow> (string \<times> string) list \<Rightarrow> (error + row) \<times> PrimitiveDB" where
  "PrimitiveDB_insert s table vals =
     (case ensure_identifier table of
        Inl e \<Rightarrow> (Inl e, s)
      | Inr _ \<Rightarrow>
          (case get_table s table of
             Inl e \<Rightarrow> (Inl e, s)
           | Inr info \<Rightarrow>
               let missing = filter (\<lambda>f. map_of vals f = None) (map fst (schema info));
                   extra = filter (\<lambda>f. map_of (schema info) f = None) (map fst vals)
               in
                 if missing \<noteq> [] then (Inl ValidationError, s)
                 else if extra \<noteq> [] then (Inl ValidationError, s)
                 else
                   (case coerce_row (schema info) (map_of vals) Map.empty of
                      Inl e \<Rightarrow> (Inl e, s)
                    | Inr r0 \<Rightarrow>
                        let new_id = (case last_id info of None \<Rightarrow> 0 | Some n \<Rightarrow> n) + 1;
                            r = r0(''id'' \<mapsto> VInt new_id);
                            m = (meta s)(table \<mapsto> info\<lparr>last_id := Some new_id\<rparr>)
                        in
                          (Inr r,
                           touch
                             (s\<lparr>meta := m,
                                data_files := (data_files s)(table \<mapsto> load_table s table @ [r]),
                                meta_file := m\<rparr>)
                             table))))"

fun prepare_set :: "(string \<times> string) list \<Rightarrow> (string \<times> string) list \<Rightarrow> error + (string \<times> pyval) list" where
  "prepare_set sch [] = Inr []"
| "prepare_set sch ((f, raw) # set_values) =
     (if f = ''id'' then Inl ValidationError
      else
        (case map_of sch f of
           None \<Rightarrow> Inl ValidationError
         | Some type_name \<Rightarrow>
             (case parse_scalar raw type_name of
                Inl e \<Rightarrow> Inl e
              | Inr v \<Rightarrow>
                  (case prepare_set sch set_values of
                     Inl e \<Rightarrow> Inl e
                   | Inr prepared \<Rightarrow> Inr ((f, v) # prepared)))))"

definition assign_all :: "(string \<times> pyval) list \<Rightarrow> row \<Rightarrow> row" where
  \<comment> \<open>\<open>for f, v in prepared_set.items(): r[f] = v\<close>\<close>
  "assign_all prepared_set r = foldl (\<lambda>acc (f, v). acc(f \<mapsto> v)) r prepared_set"

fun update_rows :: "(string \<times> pyval) list \<Rightarrow> where_key \<Rightarrow> row list \<Rightarrow> error + row list \<times> nat" where
  "update_rows prepared_set p [] = Inr ([], 0)"
| "update_rows prepared_set p (r # rs) =
     (case (if p = [] then Inr True else match r p) of
        Inl e \<Rightarrow> Inl e
      | Inr b \<Rightarrow>
          (case update_rows prepared_set p rs of
             Inl e \<Rightarrow> Inl e
           | Inr (out, updated) \<Rightarrow>
               Inr (if b then (assign_all prepared_set r # out, updated + 1) else (r # out, updated))))"

definition PrimitiveDB_update ::
  "PrimitiveDB \<Rightarrow> string \<Rightarrow> (string \<times> string) list \<Rightarrow> Condition list option \<Rightarrow> (error + nat) \<times> PrimitiveDB" where
  "PrimitiveDB_update s table set_values wh =
     (case ensure_identifier table of
        Inl e \<Rightarrow> (Inl e, s)
      | Inr _ \<Rightarrow>
          (case get_table s table of
             Inl e \<Rightarrow> (Inl e, s)
           | Inr info \<Rightarrow>
               if set_values = [] then (Inl ValidationError, s)
               else
                 (case prepare_set (schema info) set_values of
                    Inl e \<Rightarrow> (Inl e, s)
                  | Inr prepared_set \<Rightarrow>
                      (case coerce_where s table wh of
                         Inl e \<Rightarrow> (Inl e, s)
                       | Inr prepared_where \<Rightarrow>
                           (case update_rows prepared_set prepared_where (load_table s table) of
                              Inl e \<Rightarrow> (Inl e, s)
                            | Inr (rs, updated) \<Rightarrow>
                                (Inr updated,
                                 touch (s\<lparr>data_files := (data_files s)(table \<mapsto> rs)\<rparr>) table))))))"

fun keep_unmatched :: "where_key \<Rightarrow> row list \<Rightarrow> error + row list" where
  \<comment> \<open>\<open>[r for r in rows if not self._match(r, prepared_where)]\<close>\<close>
  "keep_unmatched p [] = Inr []"
| "keep_unmatched p (r # rs) =
     (case match r p of
        Inl e \<Rightarrow> Inl e
      | Inr b \<Rightarrow>
          (case keep_unmatched p rs of
             Inl e \<Rightarrow> Inl e
           | Inr out \<Rightarrow> Inr (if b then out else r # out)))"

definition PrimitiveDB_delete ::
  "PrimitiveDB \<Rightarrow> bool \<Rightarrow> string \<Rightarrow> Condition list option \<Rightarrow> (error + nat) \<times> PrimitiveDB" where
  "PrimitiveDB_delete s confirm table wh =
     (case ensure_identifier table of
        Inl e \<Rightarrow> (Inl e, s)
      | Inr _ \<Rightarrow>
          (case get_table s table of
             Inl e \<Rightarrow> (Inl e, s)
           | Inr _ \<Rightarrow>
               (case coerce_where s table wh of
                  Inl e \<Rightarrow> (Inl e, s)
                | Inr prepared_where \<Rightarrow>
                    if prepared_where = [] \<and> \<not> confirm then (Inr 0, s)
                    else
                      (case (if prepared_where = [] then Inr []
                             else keep_unmatched prepared_where (load_table s table)) of
                         Inl e \<Rightarrow> (Inl e, s)
                       | Inr rs \<Rightarrow>
                           (Inr (length (load_table s table) - length rs),
                            touch (s\<lparr>data_files := (data_files s)(table \<mapsto> rs)\<rparr>) table)))))"

section \<open>Grammar B: \<open>simple_json_db/where.py\<close>\<close>

subsection \<open>The syntax tree of the host language\<close>

text \<open>
  The classes of the \<open>ast\<close> module that an expression is built from. \<open>Other\<close> stands
  for a node of any class not listed, with the name of its class and its child nodes
  (\<open>Lambda\<close>, \<open>IfExp\<close>, \<open>List\<close>, \<open>keyword\<close>, \<open>comprehension\<close>, ...); \<open>UNot\<close> is
  the class \<open>ast.Not\<close>. A \<open>Constant\<close> carries a scalar (the constants \<open>bytes\<close>,
  \<open>complex\<close> and \<open>...\<close> are left out).
\<close>

datatype boolop = And | Or
datatype cmpop = Eq | NotEq | Lt | LtE | Gt | GtE | Is | IsNot | In | NotIn
datatype expr_context = Load | Store | Del
datatype operator = Add | Sub | Mult | MatMult | Div | Mod | Pow | LShift | RShift
  | BitOr | BitXor | BitAnd | FloorDiv
datatype unaryop = Invert | UNot | UAdd | USub

datatype expr =
    BoolOp boolop "expr list"
  | NamedExpr expr expr
  | BinOp expr operator expr
  | UnaryOp unaryop expr
  | Compare expr "cmpop list" "expr list"
  | Call expr "expr list" "expr list"
  | Constant pyval
  | Attribute expr string expr_context
  | Subscript expr expr expr_context
  | Name string expr_context
  | Other string "expr list"

text \<open>
  \<open>ast.walk\<close> yields every object of class \<open>ast.AST\<close> in the tree: the expressions, and
  also the operator and context objects held in their fields.
\<close>

datatype node =
    Expression expr
  | ExprNode expr
  | BoolopNode boolop
  | CmpopNode cmpop
  | ContextNode expr_context
  | OperatorNode operator
  | UnaryopNode unaryop

text \<open>\<open>ast.iter_child_nodes\<close>: the nodes in the fields of a node, in the order of \<open>_fields\<close>.\<close>

fun iter_child_nodes :: "node \<Rightarrow> node list" where
  "iter_child_nodes (Expression body) = [ExprNode body]"
| "iter_child_nodes (ExprNode (BoolOp b vs)) = BoolopNode b # map ExprNode vs"
| "iter_child_nodes (ExprNode (NamedExpr t v)) = [ExprNode t, ExprNode v]"
| "iter_child_nodes (ExprNode (BinOp l b r)) = [ExprNode l, OperatorNode b, ExprNode r]"
| "iter_child_nodes (ExprNode (UnaryOp u e)) = [UnaryopNode u, ExprNode e]"
| "iter_child_nodes (ExprNode (Compare l ops cs)) = ExprNode l # map CmpopNode ops @ map ExprNode cs"
| "iter_child_nodes (ExprNode (Call f args kws)) = ExprNode f # map ExprNode args @ map ExprNode kws"
| "iter_child_nodes (ExprNode (Constant v)) = []"
| "iter_child_nodes (ExprNode (Attribute e a c)) = [ExprNode e, ContextNode c]"
| "iter_child_nodes (ExprNode (Subscript e i c)) = [ExprNode e, ExprNode i, ContextNode c]"
| "iter_child_nodes (ExprNode (Name i c)) = [ContextNode c]"
| "iter_child_nodes (ExprNode (Other k es)) = map ExprNode es"
| "iter_child_nodes (BoolopNode _) = []"
| "iter_child_nodes (CmpopNode _) = []"
| "iter_child_nodes (ContextNode _) = []"
| "iter_child_nodes (OperatorNode _) = []"
| "iter_child_nodes (UnaryopNode _) = []"

fun expr_weight :: "expr \<Rightarrow> nat" where
  "expr_weight (BoolOp b vs) = 2 + sum_list (map expr_weight vs)"
| "expr_weight (NamedExpr t v) = 1 + expr_weight t + expr_weight v"
| "expr_weight (BinOp l b r) = 2 + expr_weight l + expr_weight r"
| "expr_weight (UnaryOp u e) = 2 + expr_weight e"
| "expr_weight (Compare l ops cs) = 1 + expr_weight l + length ops + sum_list (map expr_weight cs)"
| "expr_weight (Call f args kws) =
     1 + expr_weight f + sum_list (map expr_weight args) + sum_list (map expr_weight kws)"
| "expr_weight (Constant v) = 1"
| "expr_weight (Attribute e a c) = 2 + expr_weight e"
| "expr_weight (Subscript e i c) = 2 + expr_weight e + expr_weight i"
| "expr_weight (Name i c) = 2"
| "expr_weight (Other k es) = 1 + sum_list (map expr_weight es)"

fun node_weight :: "node \<Rightarrow> nat" where
  "node_weight (Expression body) = 1 + expr_weight body"
| "node_weight (ExprNode e) = expr_weight e"
| "node_weight _ = 1"

text \<open>
  \<open>ast.walk\<close>: breadth first, with the queue \<open>todo\<close>. It ends because a node weighs
  more than its children together.
\<close>

function walk :: "node list \<Rightarrow> node list" where
  "walk [] = []"
| "walk (n # todo) = n # walk (todo @ iter_child_nodes n)"
  by pat_completeness auto
termination
proof (relation "measure (\<lambda>q. sum_list (map node_weight q))")
  show "wf (measure (\<lambda>q. sum_list (map node_weight q)))" by simp
next
  fix n :: node and todo :: "node list"
  have ones: "(\<Sum>x\<leftarrow>xs. Suc 0) = length xs" for xs :: "cmpop list"
    by (induction xs) simp_all
  have "sum_list (map node_weight (iter_child_nodes n)) < node_weight n"
  proof (cases n)
    case (ExprNode e)
    then show ?thesis by (cases e) (simp_all add: comp_def ones)
  qed simp_all
  then show "(todo @ iter_child_nodes n, n # todo) \<in> measure (\<lambda>q. sum_list (map node_weight q))"
    by simp
qed

subsection \<open>Validation\<close>

definition ALLOWED_BOOL_OPS :: "boolop list" where
  "ALLOWED_BOOL_OPS = [And, Or]"

definition ALLOWED_CMPOPS :: "cmpop list" where
  "ALLOWED_CMPOPS = [Eq, NotEq, Lt, LtE, Gt, GtE]"

text \<open>One turn of the loop of \<open>_validate_ast\<close>: \<open>Inr ()\<close> is \<open>continue\<close>.\<close>

fun check_node :: "node \<Rightarrow> error + unit" where
  "check_node (Expression _) = Inr ()"
| "check_node (ExprNode (BoolOp b _)) = (if b \<notin> set ALLOWED_BOOL_OPS then Inl WhereError else Inr ())"
| "check_node (ExprNode (Compare _ ops _)) =
     (if list_ex (\<lambda>c. c \<notin> set ALLOWED_CMPOPS) ops then Inl WhereError else Inr ())"
| "check_node (ExprNode (Name _ _)) = Inr ()"
| "check_node (ExprNode (Constant _)) = Inr ()"
| "check_node (ContextNode Load) = Inr ()"
| "check_node _ = Inl WhereError"

fun check_nodes :: "node list \<Rightarrow> error + unit" where
  "check_nodes [] = Inr ()"
| "check_nodes (n # ns) = (case check_node n of Inl e \<Rightarrow> Inl e | Inr _ \<Rightarrow> check_nodes ns)"

definition validate_ast :: "node \<Rightarrow> error + unit" where
  "validate_ast n = check_nodes (walk [n])"

text \<open>
  The node kinds that the specification allows: the wrapper, \<open>and\<close>/\<open>or\<close>, a comparison
  with the six operators, a name, a constant; the operator and context objects that
  belong to these count as part of them. This predicate follows the words of the
  specification, not the code.
\<close>

fun spec_allowed :: "node \<Rightarrow> bool" where
  "spec_allowed (Expression _) = True"
| "spec_allowed (ExprNode (BoolOp b _)) = True"
| "spec_allowed (ExprNode (Compare _ ops _)) = list_all (\<lambda>c. c \<in> {Eq, NotEq, Lt, LtE, Gt, GtE}) ops"
| "spec_allowed (ExprNode (Name _ _)) = True"
| "spec_allowed (ExprNode (Constant _)) = True"
| "spec_allowed (BoolopNode _) = True"
| "spec_allowed (CmpopNode c) = (c \<in> {Eq, NotEq, Lt, LtE, Gt, GtE})"
| "spec_allowed (ContextNode c) = (c = Load)"
| "spec_allowed _ = False"

subsection \<open>Normalisation of the text\<close>

text \<open>\<open>str.replace(old, new)\<close> for a non-empty \<open>old\<close>.\<close>

function replace :: "string \<Rightarrow> string \<Rightarrow> string \<Rightarrow> string" where
  "replace old new [] = []"
| "replace old new (c # cs) =
     (if old \<noteq> [] \<and> prefix old (c # cs) then new @ replace old new (drop (length old) (c # cs))
      else c # replace old new cs)"
  by pat_completeness auto
termination
  by (relation "measure (\<lambda>(old, new, s). length s)") auto

fun replace_from :: "char option \<Rightarrow> string \<Rightarrow> string" where
  \<comment> \<open>the loop of \<open>_replace_single_equals\<close>; \<open>prev\<close> is \<open>text[i - 1]\<close>\<close>
  "replace_from prev [] = []"
| "replace_from prev (ch # rest) =
     (if ch = CHR ''='' then
        (if prev \<in> {Some CHR ''!'', Some CHR ''>'', Some CHR ''<'', Some CHR ''=''}
            \<or> (rest \<noteq> [] \<and> hd rest = CHR ''='')
         then ''='' else ''=='') @ replace_from (Some ch) rest
      else ch # replace_from (Some ch) rest)"

definition replace_single_equals :: "string \<Rightarrow> string" where
  "replace_single_equals text = replace_from None text"

definition normalize :: "string \<Rightarrow> string" where
  "normalize expr =
     replace_single_equals (replace ''=false'' ''==False'' (replace ''=true'' ''==True'' (strip expr)))"

subsection \<open>Evaluation\<close>

fun truthy :: "pyval \<Rightarrow> bool" where
  "truthy VNone = False"
| "truthy (VBool b) = b"
| "truthy (VInt i) = (i \<noteq> 0)"
| "truthy (VFloat x) = (x \<noteq> Fin 0 \<and> x \<noteq> NegZero)"
| "truthy (VStr s) = (s \<noteq> [])"
| "truthy VEmptyDict = False"

fun eval_cmpop :: "cmpop \<Rightarrow> pyval \<Rightarrow> pyval \<Rightarrow> error + bool" where
  "eval_cmpop Eq a b = Inr (py_eq a b)"
| "eval_cmpop NotEq a b = Inr (\<not> py_eq a b)"
| "eval_cmpop Lt a b = py_lt a b"
| "eval_cmpop LtE a b = py_le a b"
| "eval_cmpop Gt a b = py_gt a b"
| "eval_cmpop GtE a b = py_ge a b"
| "eval_cmpop _ a b = Inl NotModelled"

text \<open>
  What \<open>eval(code, {"__builtins__": {}}, env)\<close> computes. A name is looked up in
  \<open>env\<close>, then among the globals, which hold \<open>__builtins__\<close> only, then among the
  built-ins, which are empty, so that any other name raises \<open>NameError\<close>; the compiler
  replaces the name \<open>__debug__\<close> by \<open>True\<close>. \<open>and\<close> and \<open>or\<close> yield the operand that
  decides them; a chain of comparisons stops at the first one that is false.
\<close>

fun eval_expr :: "row \<Rightarrow> expr \<Rightarrow> error + pyval"
  and eval_and :: "row \<Rightarrow> expr list \<Rightarrow> error + pyval"
  and eval_or :: "row \<Rightarrow> expr list \<Rightarrow> error + pyval"
  and eval_chain :: "row \<Rightarrow> pyval \<Rightarrow> cmpop list \<Rightarrow> expr list \<Rightarrow> error + pyval"
where
  "eval_expr env (Constant v) = Inr v"
| "eval_expr env (Name i c) =
     (if c \<noteq> Load then Inl NotModelled
      else if i = ''__debug__'' then Inr (VBool True)
      else
        (case env i of
           Some v \<Rightarrow> Inr v
         | None \<Rightarrow> if i = ''__builtins__'' then Inr VEmptyDict else Inl PyNameError))"
| "eval_expr env (BoolOp And vs) = eval_and env vs"
| "eval_expr env (BoolOp Or vs) = eval_or env vs"
| "eval_expr env (Compare l ops cs) =
     (case eval_expr env l of Inl e \<Rightarrow> Inl e | Inr lv \<Rightarrow> eval_chain env lv ops cs)"
| "eval_expr env (NamedExpr t v) = Inl NotModelled"
| "eval_expr env (BinOp l b r) = Inl NotModelled"
| "eval_expr env (UnaryOp u e) = Inl NotModelled"
| "eval_expr env (Call f args kws) = Inl NotModelled"
| "eval_expr env (Attribute e a c) = Inl NotModelled"
| "eval_expr env (Subscript e i c) = Inl NotModelled"
| "eval_expr env (Other k es) = Inl NotModelled"
| "eval_and env [] = Inl NotModelled"
| "eval_and env [v] = eval_expr env v"
| "eval_and env (v # w # vs) =
     (case eval_expr env v of
        Inl e \<Rightarrow> Inl e
      | Inr x \<Rightarrow> if truthy x then eval_and env (w # vs) else Inr x)"
| "eval_or env [] = Inl NotModelled"
| "eval_or env [v] = eval_expr env v"
| "eval_or env (v # w # vs) =
     (case eval_expr env v of
        Inl e \<Rightarrow> Inl e
      | Inr x \<Rightarrow> if truthy x then Inr x else eval_or env (w # vs))"
| "eval_chain env lv [oper] [c] =
     (case eval_expr env c of
        Inl e \<Rightarrow> Inl e
      | Inr cv \<Rightarrow> (case eval_cmpop oper lv cv of Inl e \<Rightarrow> Inl e | Inr b \<Rightarrow> Inr (VBool b)))"
| "eval_chain env lv (oper # o2 # ops) (c # cs) =
     (case eval_expr env c of
        Inl e \<Rightarrow> Inl e
      | Inr cv \<Rightarrow>
          (case eval_cmpop oper lv cv of
             Inl e \<Rightarrow> Inl e
           | Inr b \<Rightarrow> if b then eval_chain env cv (o2 # ops) cs else Inr (VBool False)))"
| "eval_chain env lv _ _ = Inl NotModelled"

text \<open>
  \<open>compile(node, ...)\<close> checks the tree before it generates code. On the node kinds
  that the validation lets through it raises \<open>ValueError\<close> for a \<open>Name\<close> that spells
  \<open>None\<close>, \<open>True\<close> or \<open>False\<close>, for a \<open>Compare\<close> without comparators or with
  a number of operators other than the number of comparators, and for a \<open>BoolOp\<close>
  with fewer than two values; the parser builds none of these.
\<close>

fun compile_rejects :: "node \<Rightarrow> bool" where
  "compile_rejects (ExprNode (Name i c)) = (i \<in> set [''None'', ''True'', ''False''])"
| "compile_rejects (ExprNode (Compare l ops cs)) = (cs = [] \<or> length ops \<noteq> length cs)"
| "compile_rejects (ExprNode (BoolOp b vs)) = (length vs < 2)"
| "compile_rejects _ = False"

definition compile_code :: "expr \<Rightarrow> error + expr" where
  "compile_code body =
     (if list_ex compile_rejects (walk [Expression body]) then Inl PyValueError else Inr body)"

definition predicate :: "expr \<Rightarrow> row \<Rightarrow> error + bool" where
  \<comment> \<open>the closure \<open>_predicate\<close>\<close>
  "predicate code r =
     (let env = r(''True'' \<mapsto> VBool True, ''False'' \<mapsto> VBool False) in
        case eval_expr env code of Inl e \<Rightarrow> Inl e | Inr v \<Rightarrow> Inr (truthy v))"

text \<open>
  \<open>compile_where\<close>. The parser of the host language, \<open>ast.parse(text, mode="eval")\<close>, is
  the parameter \<open>ast_parse\<close>: it returns the body of the \<open>Expression\<close> or fails, with
  \<open>PySyntaxError\<close> for a \<open>SyntaxError\<close>, which alone is turned into \<open>WhereError\<close>.
\<close>

definition compile_where :: "(string \<Rightarrow> error + expr) \<Rightarrow> string \<Rightarrow> error + (row \<Rightarrow> error + bool)" where
  "compile_where ast_parse expr =
     (if strip expr = [] then Inr (\<lambda>_. Inr True)
      else
        (case ast_parse (normalize expr) of
           Inl e \<Rightarrow> Inl (if e = PySyntaxError then WhereError else e)
         | Inr body \<Rightarrow>
             (case validate_ast (Expression body) of
                Inl e \<Rightarrow> Inl e
              | Inr _ \<Rightarrow>
                  (case compile_code body of
                     Inl e \<Rightarrow> Inl e
                   | Inr code \<Rightarrow> Inr (predicate code)))))"

text \<open>
  The constructs that the specification names as injections (calls, attribute access,
  subscripting, arithmetic, assignment) and any node of a class not listed.
\<close>

fun injected :: "expr \<Rightarrow> bool" where
  "injected (Call _ _ _) = True"
| "injected (Attribute _ _ _) = True"
| "injected (Subscript _ _ _) = True"
| "injected (BinOp _ _ _) = True"
| "injected (UnaryOp _ _) = True"
| "injected (NamedExpr _ _) = True"
| "injected (Other _ _) = True"
| "injected _ = False"

text \<open>
  \<open>name_bound r n\<close>: if the node is a name, the record has it as a key, or it is one of
  the two names that resolve without the record.
\<close>

fun name_bound :: "row \<Rightarrow> node \<Rightarrow> bool" where
  "name_bound r (ExprNode (Name i c)) = (r i \<noteq> None \<or> i = ''__debug__'' \<or> i = ''__builtins__'')"
| "name_bound r _ = True"

text \<open>What the engine does with a where-text and one record: compile, then call the predicate.\<close>

definition apply_where :: "(string \<Rightarrow> error + expr) \<Rightarrow> string \<Rightarrow> row \<Rightarrow> error + bool" where
  "apply_where ast_parse expr r =
     (case compile_where ast_parse expr of Inl e \<Rightarrow> Inl e | Inr pred \<Rightarrow> pred r)"

text \<open>The value of \<open>ast.parse(text, mode="eval")\<close> on the texts of the examples below.\<close>

definition example_parse :: "string \<Rightarrow> error + expr" where
  "example_parse text =
     (if text = ''foo'' then Inr (Name ''foo'' Load)
      else if text = ''active'' then Inr (Name ''active'' Load)
      else if text = ''age > len(name)'' then
        Inr (Compare (Name ''age'' Load) [Gt] [Call (Name ''len'' Load) [Name ''name'' Load] []])
      else if text = ''age>=30'' then
        Inr (Compare (Name ''age'' Load) [GtE] [Constant (VInt 30)])
      else if text = ''name.upper'' then Inr (Attribute (Name ''name'' Load) ''upper'' Load)
      else if text = ''tags[0]'' then Inr (Subscript (Name ''tags'' Load) (Constant (VInt 0)) Load)
      else if text = ''age + 1'' then Inr (BinOp (Name ''age'' Load) Add (Constant (VInt 1)))
      else Inl PySyntaxError)"

section \<open>The table engine of \<open>simple_json_db\<close>\<close>

subsection \<open>\<open>schema.py\<close>\<close>

fun parse_schema_loop :: "(string \<times> string) list \<Rightarrow> string list \<Rightarrow> error + (string \<times> string) list" where
  "parse_schema_loop flds [] = (if flds = [] then Inl SchemaError else Inr flds)"
| "parse_schema_loop flds (part # parts) =
     (case split_once '':'' part of
        None \<Rightarrow> Inl SchemaError
      | Some (f0, t0) \<Rightarrow>
          let f = strip f0; type_name = strip t0 in
            if f = [] then Inl SchemaError
            else if type_name \<notin> set SUPPORTED_TYPES then Inl SchemaError
            else if f = ''id'' then Inl SchemaError
            else if f \<in> fst ` set flds then Inl SchemaError
            else parse_schema_loop (flds @ [(f, type_name)]) parts)"

definition parse_schema_parts :: "string list \<Rightarrow> error + (string \<times> string) list" where
  "parse_schema_parts parts = parse_schema_loop [] parts"

fun cast_fields :: "(string \<times> string) list \<Rightarrow> (string \<rightharpoonup> string) \<Rightarrow> row \<Rightarrow> error + row" where
  \<comment> \<open>\<open>for field, type_name in self.fields.items(): cooked[field] = cast_value(type_name, data[field])\<close>\<close>
  "cast_fields [] data cooked = Inr cooked"
| "cast_fields ((f, type_name) # flds) data cooked =
     (case data f of
        None \<Rightarrow> Inl PyKeyError
      | Some raw \<Rightarrow>
          (case cast_value type_name raw of
             Inl e \<Rightarrow> Inl e
           | Inr v \<Rightarrow> cast_fields flds data (cooked(f \<mapsto> v))))"

definition validate_insert :: "(string \<times> string) list \<Rightarrow> (string \<times> string) list \<Rightarrow> error + row" where
  "validate_insert flds data =
     (let unknown = filter (\<lambda>f. map_of flds f = None) (map fst data);
          missing = filter (\<lambda>f. map_of data f = None) (map fst flds)
      in if unknown \<noteq> [] then Inl SchemaError
         else if missing \<noteq> [] then Inl SchemaError
         else cast_fields flds (map_of data) Map.empty)"

fun cast_pairs :: "(string \<times> string) list \<Rightarrow> (string \<times> string) list \<Rightarrow> row \<Rightarrow> error + row" where
  \<comment> \<open>\<open>for field, raw in data.items(): cooked[field] = cast_value(self.fields[field], raw)\<close>\<close>
  "cast_pairs flds [] cooked = Inr cooked"
| "cast_pairs flds ((f, raw) # data) cooked =
     (case map_of flds f of
        None \<Rightarrow> Inl PyKeyError
      | Some type_name \<Rightarrow>
          (case cast_value type_name raw of
             Inl e \<Rightarrow> Inl e
           | Inr v \<Rightarrow> cast_pairs flds data (cooked(f \<mapsto> v))))"

definition validate_update :: "(string \<times> string) list \<Rightarrow> (string \<times> string) list \<Rightarrow> error + row" where
  "validate_update flds data =
     (let unknown = filter (\<lambda>f. map_of flds f = None) (map fst data)
      in if unknown \<noteq> [] then Inl SchemaError
         else cast_pairs flds data Map.empty)"

subsection \<open>\<open>engine.py\<close>\<close>

text \<open>
  A \<open>DBEngine\<close> keeps nothing in memory: every method reads \<open>meta.json\<close>, whose two
  entries are \<open>tables\<close> and \<open>counters\<close>, and the row file of the table.
\<close>

record DBEngine =
  tables :: "string \<rightharpoonup> (string \<times> string) list"
  counters :: "string \<rightharpoonup> int"
  table_files :: "string \<rightharpoonup> row list"

definition DBEngine_open :: DBEngine where
  \<comment> \<open>\<open>DBEngine.open\<close> on a directory without files\<close>
  "DBEngine_open = \<lparr>tables = Map.empty, counters = Map.empty, table_files = Map.empty\<rparr>"

definition engine_schema :: "DBEngine \<Rightarrow> string \<Rightarrow> error + (string \<times> string) list" where
  \<comment> \<open>\<open>DBEngine._schema\<close>\<close>
  "engine_schema e table =
     (case tables e table of None \<Rightarrow> Inl EngineError | Some flds \<Rightarrow> Inr flds)"

definition read_rows :: "DBEngine \<Rightarrow> string \<Rightarrow> row list" where
  \<comment> \<open>\<open>read_json(table_path(self.paths, table), default=[])\<close>\<close>
  "read_rows e table = (case table_files e table of None \<Rightarrow> [] | Some rs \<Rightarrow> rs)"

definition DBEngine_create_table :: "DBEngine \<Rightarrow> string \<Rightarrow> string list \<Rightarrow> (error + unit) \<times> DBEngine" where
  "DBEngine_create_table e name schema_parts =
     (if name \<in> dom (tables e) then (Inl EngineError, e)
      else
        (case parse_schema_parts schema_parts of
           Inl x \<Rightarrow> (Inl x, e)
         | Inr flds \<Rightarrow>
             (Inr (),
              e\<lparr>tables := (tables e)(name \<mapsto> flds),
                counters := (counters e)(name \<mapsto> 0),
                table_files := (table_files e)(name \<mapsto> [])\<rparr>)))"

definition DBEngine_drop_table :: "DBEngine \<Rightarrow> string \<Rightarrow> (error + unit) \<times> DBEngine" where
  "DBEngine_drop_table e name =
     (if name \<notin> dom (tables e) then (Inl EngineError, e)
      else
        (Inr (),
         e\<lparr>tables := (tables e)(name := None),
           counters := (counters e)(name := None),
           table_files := (table_files e)(name := None)\<rparr>))"

definition DBEngine_insert :: "DBEngine \<Rightarrow> string \<Rightarrow> (string \<times> string) list \<Rightarrow> (error + row) \<times> DBEngine" where
  "DBEngine_insert e table raw_pairs =
     (case engine_schema e table of
        Inl x \<Rightarrow> (Inl x, e)
      | Inr flds \<Rightarrow>
          (case validate_insert flds raw_pairs of
             Inl x \<Rightarrow> (Inl x, e)
           | Inr cooked \<Rightarrow>
               (case counters e table of
                  None \<Rightarrow> (Inl PyKeyError, e)
                | Some c \<Rightarrow>
                    let row_id = c + 1;
                        payload = cooked(''id'' \<mapsto> VInt row_id)
                    in
                      (Inr payload,
                       e\<lparr>table_files := (table_files e)(table \<mapsto> read_rows e table @ [payload]),
                         counters := (counters e)(table \<mapsto> row_id)\<rparr>))))"

fun filter_pred :: "(row \<Rightarrow> error + bool) \<Rightarrow> bool \<Rightarrow> row list \<Rightarrow> error + row list" where
  \<comment> \<open>\<open>[r for r in rows if pred(r)]\<close>, or \<open>if not pred(r)\<close> when \<open>keep\<close> is \<open>False\<close>\<close>
  "filter_pred pred keep [] = Inr []"
| "filter_pred pred keep (r # rs) =
     (case pred r of
        Inl x \<Rightarrow> Inl x
      | Inr b \<Rightarrow>
          (case filter_pred pred keep rs of
             Inl x \<Rightarrow> Inl x
           | Inr out \<Rightarrow> Inr (if b = keep then r # out else out)))"

definition DBEngine_select ::
  "(string \<Rightarrow> error + expr) \<Rightarrow> DBEngine \<Rightarrow> string \<Rightarrow> string option \<Rightarrow> (error + row list) \<times> DBEngine" where
  "DBEngine_select ast_parse e table wh =
     (case engine_schema e table of
        Inl x \<Rightarrow> (Inl x, e)
      | Inr _ \<Rightarrow>
          if wh \<noteq> None \<and> wh \<noteq> Some [] then
            (case compile_where ast_parse (the wh) of
               Inl x \<Rightarrow> (Inl x, e)
             | Inr pred \<Rightarrow> (filter_pred pred True (read_rows e table), e))
          else (Inr (read_rows e table), e))"

fun update_pred :: "(row \<Rightarrow> error + bool) \<Rightarrow> row \<Rightarrow> row list \<Rightarrow> error + row list \<times> nat" where
  \<comment> \<open>\<open>for row in rows: if pred(row): row.update(cooked); changed += 1\<close>\<close>
  "update_pred pred cooked [] = Inr ([], 0)"
| "update_pred pred cooked (r # rs) =
     (case pred r of
        Inl x \<Rightarrow> Inl x
      | Inr b \<Rightarrow>
          (case update_pred pred cooked rs of
             Inl x \<Rightarrow> Inl x
           | Inr (out, changed) \<Rightarrow>
               Inr (if b then ((r ++ cooked) # out, changed + 1) else (r # out, changed))))"

definition DBEngine_update ::
  "(string \<Rightarrow> error + expr) \<Rightarrow> DBEngine \<Rightarrow> string \<Rightarrow> (string \<times> string) list \<Rightarrow> string option
     \<Rightarrow> (error + nat) \<times> DBEngine" where
  "DBEngine_update ast_parse e table set_pairs wh =
     (case engine_schema e table of
        Inl x \<Rightarrow> (Inl x, e)
      | Inr flds \<Rightarrow>
          (case validate_update flds set_pairs of
             Inl x \<Rightarrow> (Inl x, e)
           | Inr cooked \<Rightarrow>
               (case compile_where ast_parse (case wh of None \<Rightarrow> [] | Some w \<Rightarrow> w) of
                  Inl x \<Rightarrow> (Inl x, e)
                | Inr pred \<Rightarrow>
                    (case update_pred pred cooked (read_rows e table) of
                       Inl x \<Rightarrow> (Inl x, e)
                     | Inr (rs, changed) \<Rightarrow>
                         (Inr changed, e\<lparr>table_files := (table_files e)(table \<mapsto> rs)\<rparr>)))))"

definition DBEngine_delete ::
  "(string \<Rightarrow> error + expr) \<Rightarrow> DBEngine \<Rightarrow> string \<Rightarrow> string option \<Rightarrow> (error + nat) \<times> DBEngine" where
  "DBEngine_delete ast_parse e table wh =
     (case engine_schema e table of
        Inl x \<Rightarrow> (Inl x, e)
      | Inr _ \<Rightarrow>
          if wh \<noteq> None \<and> wh \<noteq> Some [] then
            (case compile_where ast_parse (the wh) of
               Inl x \<Rightarrow> (Inl x, e)
             | Inr pred \<Rightarrow>
                 (case filter_pred pred False (read_rows e table) of
                    Inl x \<Rightarrow> (Inl x, e)
                  | Inr keep \<Rightarrow>
                      (Inr (length (read_rows e table) - length keep),
                       e\<lparr>table_files := (table_files e)(table \<mapsto> keep)\<rparr>)))
          else
            (Inr (length (read_rows e table)), e\<lparr>table_files := (table_files e)(table \<mapsto> [])\<rparr>))"

section \<open>Sequences of commands\<close>

text \<open>
  A run of commands against one engine, with the log of the table and the \<open>id\<close> of the
  row of every insert that succeeded, in order.
\<close>

datatype db_command =
    CreateTable string "(string \<times> string) list"
  | DropTable bool string
  | Insert string "(string \<times> string) list"
  | Select string "Condition list option"
  | Update string "(string \<times> string) list" "Condition list option"
  | Delete bool string "Condition list option"

fun PrimitiveDB_step :: "PrimitiveDB \<Rightarrow> db_command \<Rightarrow> (string \<times> pyval option) list \<times> PrimitiveDB" where
  "PrimitiveDB_step s (CreateTable t columns) = ([], snd (PrimitiveDB_create_table s t columns))"
| "PrimitiveDB_step s (DropTable confirm t) = ([], snd (PrimitiveDB_drop_table s confirm t))"
| "PrimitiveDB_step s (Insert t vals) =
     (case PrimitiveDB_insert s t vals of
        (Inr r, s') \<Rightarrow> ([(t, r ''id'')], s')
      | (Inl e, s') \<Rightarrow> ([], s'))"
| "PrimitiveDB_step s (Select t wh) = ([], snd (PrimitiveDB_select s t wh))"
| "PrimitiveDB_step s (Update t set_values wh) = ([], snd (PrimitiveDB_update s t set_values wh))"
| "PrimitiveDB_step s (Delete confirm t wh) = ([], snd (PrimitiveDB_delete s confirm t wh))"

fun PrimitiveDB_run :: "PrimitiveDB \<Rightarrow> db_command list \<Rightarrow> (string \<times> pyval option) list \<times> PrimitiveDB" where
  "PrimitiveDB_run s [] = ([], s)"
| "PrimitiveDB_run s (c # cs) =
     (let (log1, s1) = PrimitiveDB_step s c; (log2, s2) = PrimitiveDB_run s1 cs
      in (log1 @ log2, s2))"

datatype engine_command =
    ECreateTable string "string list"
  | EDropTable string
  | EInsert string "(string \<times> string) list"
  | ESelect string "string option"
  | EUpdate string "(string \<times> string) list" "string option"
  | EDelete string "string option"

fun DBEngine_step ::
  "(string \<Rightarrow> error + expr) \<Rightarrow> DBEngine \<Rightarrow> engine_command \<Rightarrow> (string \<times> pyval option) list \<times> DBEngine" where
  "DBEngine_step p e (ECreateTable t parts) = ([], snd (DBEngine_create_table e t parts))"
| "DBEngine_step p e (EDropTable t) = ([], snd (DBEngine_drop_table e t))"
| "DBEngine_step p e (EInsert t raw_pairs) =
     (case DBEngine_insert e t raw_pairs of
        (Inr r, e') \<Rightarrow> ([(t, r ''id'')], e')
      | (Inl x, e') \<Rightarrow> ([], e'))"
| "DBEngine_step p e (ESelect t wh) = ([], snd (DBEngine_select p e t wh))"
| "DBEngine_step p e (EUpdate t set_pairs wh) = ([], snd (DBEngine_update p e t set_pairs wh))"
| "DBEngine_step p e (EDelete t wh) = ([], snd (DBEngine_delete p e t wh))"

fun DBEngine_run ::
  "(string \<Rightarrow> error + expr) \<Rightarrow> DBEngine \<Rightarrow> engine_command list \<Rightarrow> (string \<times> pyval option) list \<times> DBEngine" where
  "DBEngine_run p e [] = ([], e)"
| "DBEngine_run p e (c # cs) =
     (let (log1, e1) = DBEngine_step p e c; (log2, e2) = DBEngine_run p e1 cs
      in (log1 @ log2, e2))"

definition ids_of :: "string \<Rightarrow> (string \<times> pyval option) list \<Rightarrow> pyval option list" where
  "ids_of t entries = map snd (filter (\<lambda>entry. fst entry = t) entries)"

definition last_id_of :: "PrimitiveDB \<Rightarrow> string \<Rightarrow> int" where
  \<comment> \<open>\<open>int(table_info.get("last_id", 0))\<close>, and 0 for a table that does not exist\<close>
  "last_id_of s t =
     (case meta s t of
        None \<Rightarrow> 0
      | Some info \<Rightarrow> (case last_id info of None \<Rightarrow> 0 | Some n \<Rightarrow> n))"

definition counter_of :: "DBEngine \<Rightarrow> string \<Rightarrow> int" where
  "counter_of e t = (case counters e t of None \<Rightarrow> 0 | Some c \<Rightarrow> c)"

definition touches_table :: "string \<Rightarrow> db_command \<Rightarrow> bool" where
  \<comment> \<open>the command creates or drops the table\<close>
  "touches_table t c = (case c of CreateTable t' _ \<Rightarrow> t' = t | DropTable _ t' \<Rightarrow> t' = t | _ \<Rightarrow> False)"

definition etouches_table :: "string \<Rightarrow> engine_command \<Rightarrow> bool" where
  "etouches_table t c = (case c of ECreateTable t' _ \<Rightarrow> t' = t | EDropTable t' \<Rightarrow> t' = t | _ \<Rightarrow> False)"

text \<open>\<open>consecutive c ids\<close>: the ids are \<open>c + 1\<close>, \<open>c + 2\<close>, ... in this order.\<close>

definition consecutive :: "int \<Rightarrow> pyval option list \<Rightarrow> bool" where
  "consecutive c ids = (ids = map (\<lambda>i. Some (VInt (c + 1 + int i))) [0..<length ids])"

section \<open>Example states\<close>

text \<open>A fresh engine of each kind after \<open>create_table users name:str age:int\<close>.\<close>

definition users_db :: PrimitiveDB where
  "users_db =
     snd (PrimitiveDB_create_table (PrimitiveDB_init Map.empty Map.empty) ''users''
            [(''name'', ''str''), (''age'', ''int'')])"

definition users_engine :: DBEngine where
  "users_engine = snd (DBEngine_create_table DBEngine_open ''users'' [''name:str'', ''age:int''])"

text \<open>
  Two histories of one \<open>PrimitiveDB\<close> object that starts without tables. In both a table
  is filled, read, dropped and created again under the same name; the first then inserts
  a row, the second reads the empty table.
\<close>

definition id_from_1 :: "Condition list option" where
  \<comment> \<open>the where-clause \<open>id>=1\<close>\<close>
  "id_from_1 = Some [\<lparr>field = ''id'', op = ''>='', raw_value = ''1''\<rparr>]"

definition recreate_history :: "db_command list" where
  "recreate_history =
     [CreateTable ''t'' [(''name'', ''str'')],
      Insert ''t'' [(''name'', ''old'')],
      Select ''t'' id_from_1,
      DropTable True ''t'',
      CreateTable ''t'' [(''name'', ''str'')],
      Insert ''t'' [(''name'', ''new'')]]"

definition recreated_db :: PrimitiveDB where
  "recreated_db = snd (PrimitiveDB_run (PrimitiveDB_init Map.empty Map.empty) recreate_history)"

definition reread_history :: "db_command list" where
  "reread_history =
     [CreateTable ''t'' [(''name'', ''str'')],
      Insert ''t'' [(''name'', ''old'')],
      Select ''t'' None,
      DropTable True ''t'',
      CreateTable ''t'' [(''name'', ''str'')],
      Select ''t'' None]"

definition reread_db :: PrimitiveDB where
  "reread_db = snd (PrimitiveDB_run (PrimitiveDB_init Map.empty Map.empty) reread_history)"

section \<open>Scalar coercion: the null tokens\<close>

lemma parse_scalar_null_shortcut:
  "lower (strip raw) \<in> {''null'', ''none''} \<Longrightarrow> parse_scalar raw type_name = Inr VNone"
  by (simp add: parse_scalar_def Let_def)

lemma cast_value_not_None: "cast_value type_name raw \<noteq> Inr VNone"
  by (simp add: cast_value_def split: option.splits sum.splits)

lemma cast_value_null_int: "cast_value ''int'' ''null'' = Inl TypeErrorDB"
  by code_simp

lemma cast_value_null_float: "cast_value ''float'' ''null'' = Inl TypeErrorDB"
  by code_simp

lemma cast_value_null_bool: "cast_value ''bool'' ''null'' = Inl TypeErrorDB"
  by code_simp

lemma cast_value_null_str: "cast_value ''str'' ''null'' = Inr (VStr ''null'')"
  by code_simp

text \<open>
  C4. \<open>parse_scalar\<close> returns the null value for the tokens \<open>null\<close> and \<open>none\<close>, in any
  letter case and after trimming, for every type name and before any handling of the
  type. \<open>cast_value\<close> has no such shortcut: it never returns the null value, the token
  \<open>null\<close> fails with \<open>TypeErrorDB\<close> under \<open>int\<close>, \<open>float\<close> and \<open>bool\<close>, and under
  \<open>str\<close> it is the text \<open>null\<close>.
\<close>

theorem null_token_policies:
  "(\<forall>raw type_name. lower (strip raw) \<in> {''null'', ''none''}
       \<longrightarrow> parse_scalar raw type_name = Inr VNone)
   \<and> cast_value ''int'' ''null'' = Inl TypeErrorDB
   \<and> cast_value ''float'' ''null'' = Inl TypeErrorDB
   \<and> cast_value ''bool'' ''null'' = Inl TypeErrorDB
   \<and> cast_value ''str'' ''null'' = Inr (VStr ''null'')
   \<and> (\<forall>type_name raw. cast_value type_name raw \<noteq> Inr VNone)"
  using parse_scalar_null_shortcut cast_value_not_None cast_value_null_int
    cast_value_null_float cast_value_null_bool cast_value_null_str
  by blast

theorem null_token_policies_witness:
  "lower (strip '' NuLL '') \<in> {''null'', ''none''}
   \<and> parse_scalar '' NuLL '' ''int'' = Inr VNone
   \<and> parse_scalar '' NuLL '' ''no such type'' = Inr VNone"
proof -
  have h: "lower (strip '' NuLL '') \<in> {''null'', ''none''}"
    by code_simp
  from null_token_policies h
  have "parse_scalar '' NuLL '' ''int'' = Inr VNone"
    and "parse_scalar '' NuLL '' ''no such type'' = Inr VNone"
    by blast+
  with h show ?thesis by simp
qed

section \<open>Grammar A: null operands and short-circuit in the filter\<close>

lemma py_eq_None_left: "py_eq VNone v = (v = VNone)"
  by (cases v) simp_all

lemma py_eq_None_right: "py_eq v VNone = (v = VNone)"
  by (cases v) simp_all

lemma match_ordering_null:
  assumes "oper \<in> {''>'', ''<'', ''>='', ''<=''}" and "get r f = VNone \<or> v = VNone"
  shows "match r ((f, oper, v) # rest) = Inr False"
  using assms by (auto simp: ordering_def Let_def)

lemma match_append: "match r pre = Inr False \<Longrightarrow> match r (pre @ rest) = Inr False"
proof (induction pre)
  case Nil
  then show ?case by simp
next
  case (Cons c pre)
  obtain f oper v where c: "c = (f, oper, v)" by (cases c)
  show ?case using Cons unfolding c
    by (auto simp: Let_def ordering_def split: if_splits sum.splits)
qed


lemma match_Nil: "match r [] = Inr True"
  by simp

lemma match_ordering_step:
  assumes "get r f \<noteq> VNone" and "v \<noteq> VNone"
  shows "match r ((f, ''>'', v) # rest) =
           (case py_gt (get r f) v of Inl e \<Rightarrow> Inl e | Inr b \<Rightarrow> if b then match r rest else Inr False)"
    and "match r ((f, ''<'', v) # rest) =
           (case py_lt (get r f) v of Inl e \<Rightarrow> Inl e | Inr b \<Rightarrow> if b then match r rest else Inr False)"
    and "match r ((f, ''>='', v) # rest) =
           (case py_ge (get r f) v of Inl e \<Rightarrow> Inl e | Inr b \<Rightarrow> if b then match r rest else Inr False)"
    and "match r ((f, ''<='', v) # rest) =
           (case py_le (get r f) v of Inl e \<Rightarrow> Inl e | Inr b \<Rightarrow> if b then match r rest else Inr False)"
  using assms by (simp_all add: Let_def ordering_def split: sum.splits)

lemma match_unknown_operator:
  "oper \<notin> {''='', ''!='', ''>'', ''<'', ''>='', ''<=''} \<Longrightarrow>
   match r ((f, oper, v) # rest) = Inl ValidationError"
  by (simp add: Let_def)

lemma match_conjunction:
  "match r (pre @ rest) =
     (case match r pre of Inl e \<Rightarrow> Inl e | Inr b \<Rightarrow> if b then match r rest else Inr False)"
proof (induction pre)
  case Nil
  then show ?case by simp
next
  case (Cons c pre)
  obtain f oper v where c: "c = (f, oper, v)" by (cases c)
  show ?case unfolding c using Cons
    by (simp add: Let_def ordering_def split: sum.splits)
qed

lemma match_null_anywhere:
  assumes "match r pre = Inr b" and "oper \<in> {''>'', ''<'', ''>='', ''<=''}"
    and "get r f = VNone \<or> v = VNone"
  shows "match r (pre @ (f, oper, v) # rest) = Inr False"
  using assms(1) match_ordering_null[OF assms(2,3), of rest]
  by (simp add: match_conjunction)

lemma match_and_example:
  "match [''age'' \<mapsto> VInt 20] [(''age'', ''>='', VInt 25), (''age'', ''<='', VInt 35)] = Inr False"
  "match [''age'' \<mapsto> VInt 30] [(''age'', ''>='', VInt 25), (''age'', ''<='', VInt 35)] = Inr True"
  "match [''age'' \<mapsto> VInt 40] [(''age'', ''>='', VInt 25), (''age'', ''<='', VInt 35)] = Inr False"
  by (simp_all add: get_def ordering_def py_ge_def num_eq_def)

lemma match_null_equality_example:
  "match [''age'' \<mapsto> VNone] [(''age'', ''='', VNone)] = Inr True"
  "match [''age'' \<mapsto> VNone] [(''age'', ''!='', VNone)] = Inr False"
  "match [''age'' \<mapsto> VNone] [(''age'', ''!='', VInt 5)] = Inr True"
  "match [''age'' \<mapsto> VInt 5] [(''age'', ''='', VNone)] = Inr False"
  by (simp_all add: get_def)

text \<open>
  C6. In \<open>_match\<close>, an ordering comparison (\<open>>\<close>, \<open><\<close>, \<open>>=\<close>, \<open><=\<close>) whose field value
  or comparison value is null makes the result \<open>False\<close>, with no error, at the head of
  the conditions and at any later place that is reached without an error. With two
  operands that are not null the result is the error of the comparison if it raises,
  \<open>False\<close> if it does not hold, and otherwise the result of the conditions that follow.
  \<open>=\<close> and \<open>!=\<close> never raise and compare null like any other value: null is equal
  to null and to nothing else, so \<open>= null\<close> matches a null field. No condition at all
  is \<open>True\<close>, an operator outside the six is an error, and a conjunction is the result
  of its prefix when that is an error or \<open>False\<close>, whatever follows, and the result of
  the rest when the prefix is \<open>True\<close>. On the rows with ages 20, 30 and 40 the
  conditions \<open>age>=25\<close>, \<open>age<=35\<close> select the row with age 30 only.
\<close>

theorem match_null_ordering:
  "(\<forall>r f oper v rest. oper \<in> {''>'', ''<'', ''>='', ''<=''} \<and> (get r f = VNone \<or> v = VNone)
       \<longrightarrow> match r ((f, oper, v) # rest) = Inr False)
   \<and> (\<forall>r pre b f oper v rest.
         match r pre = Inr b \<and> oper \<in> {''>'', ''<'', ''>='', ''<=''} \<and> (get r f = VNone \<or> v = VNone)
       \<longrightarrow> match r (pre @ (f, oper, v) # rest) = Inr False)
   \<and> (\<forall>r f v rest. get r f \<noteq> VNone \<and> v \<noteq> VNone \<longrightarrow>
         match r ((f, ''>'', v) # rest) =
           (case py_gt (get r f) v of Inl e \<Rightarrow> Inl e | Inr b \<Rightarrow> if b then match r rest else Inr False)
         \<and> match r ((f, ''<'', v) # rest) =
           (case py_lt (get r f) v of Inl e \<Rightarrow> Inl e | Inr b \<Rightarrow> if b then match r rest else Inr False)
         \<and> match r ((f, ''>='', v) # rest) =
           (case py_ge (get r f) v of Inl e \<Rightarrow> Inl e | Inr b \<Rightarrow> if b then match r rest else Inr False)
         \<and> match r ((f, ''<='', v) # rest) =
           (case py_le (get r f) v of Inl e \<Rightarrow> Inl e | Inr b \<Rightarrow> if b then match r rest else Inr False))
   \<and> (\<forall>r f v rest. match r ((f, ''='', v) # rest) = (if py_eq (get r f) v then match r rest else Inr False))
   \<and> (\<forall>r f v rest. match r ((f, ''!='', v) # rest) = (if py_eq (get r f) v then Inr False else match r rest))
   \<and> (\<forall>v. py_eq VNone v = (v = VNone)) \<and> (\<forall>v. py_eq v VNone = (v = VNone))
   \<and> (\<forall>r. match r [] = Inr True)
   \<and> (\<forall>r f oper v rest. oper \<notin> {''='', ''!='', ''>'', ''<'', ''>='', ''<=''}
       \<longrightarrow> match r ((f, oper, v) # rest) = Inl ValidationError)
   \<and> (\<forall>r pre rest. match r (pre @ rest) =
         (case match r pre of Inl e \<Rightarrow> Inl e | Inr b \<Rightarrow> if b then match r rest else Inr False))
   \<and> (\<forall>r pre rest. match r pre = Inr False \<longrightarrow> match r (pre @ rest) = Inr False)
   \<and> match [''age'' \<mapsto> VInt 20] [(''age'', ''>='', VInt 25), (''age'', ''<='', VInt 35)] = Inr False
   \<and> match [''age'' \<mapsto> VInt 30] [(''age'', ''>='', VInt 25), (''age'', ''<='', VInt 35)] = Inr True
   \<and> match [''age'' \<mapsto> VInt 40] [(''age'', ''>='', VInt 25), (''age'', ''<='', VInt 35)] = Inr False
   \<and> match [''age'' \<mapsto> VNone] [(''age'', ''='', VNone)] = Inr True
   \<and> match [''age'' \<mapsto> VNone] [(''age'', ''!='', VNone)] = Inr False
   \<and> match [''age'' \<mapsto> VNone] [(''age'', ''!='', VInt 5)] = Inr True
   \<and> match [''age'' \<mapsto> VInt 5] [(''age'', ''='', VNone)] = Inr False"
proof (intro conjI allI impI)
  fix r f oper v rest
  assume "oper \<in> {''>'', ''<'', ''>='', ''<=''} \<and> (get r f = VNone \<or> v = VNone)"
  then show "match r ((f, oper, v) # rest) = Inr False"
    using match_ordering_null by blast
next
  fix r pre b f oper v rest
  assume "match r pre = Inr b \<and> oper \<in> {''>'', ''<'', ''>='', ''<=''} \<and> (get r f = VNone \<or> v = VNone)"
  then show "match r (pre @ (f, oper, v) # rest) = Inr False"
    using match_null_anywhere by blast
next
  fix r f v rest
  assume a: "get r f \<noteq> VNone \<and> v \<noteq> VNone"
  show "match r ((f, ''>'', v) # rest) =
           (case py_gt (get r f) v of Inl e \<Rightarrow> Inl e | Inr b \<Rightarrow> if b then match r rest else Inr False)"
    using a match_ordering_step(1)[of r f v rest] by blast
  show "match r ((f, ''<'', v) # rest) =
           (case py_lt (get r f) v of Inl e \<Rightarrow> Inl e | Inr b \<Rightarrow> if b then match r rest else Inr False)"
    using a match_ordering_step(2)[of r f v rest] by blast
  show "match r ((f, ''>='', v) # rest) =
           (case py_ge (get r f) v of Inl e \<Rightarrow> Inl e | Inr b \<Rightarrow> if b then match r rest else Inr False)"
    using a match_ordering_step(3)[of r f v rest] by blast
  show "match r ((f, ''<='', v) # rest) =
           (case py_le (get r f) v of Inl e \<Rightarrow> Inl e | Inr b \<Rightarrow> if b then match r rest else Inr False)"
    using a match_ordering_step(4)[of r f v rest] by blast
next
  fix r f v rest
  show "match r ((f, ''='', v) # rest) = (if py_eq (get r f) v then match r rest else Inr False)"
    by (simp add: Let_def)
next
  fix r f v rest
  show "match r ((f, ''!='', v) # rest) = (if py_eq (get r f) v then Inr False else match r rest)"
    by (simp add: Let_def)
next
  fix v show "py_eq VNone v = (v = VNone)" by (rule py_eq_None_left)
next
  fix v show "py_eq v VNone = (v = VNone)" by (rule py_eq_None_right)
next
  fix r show "match r [] = Inr True" by (rule match_Nil)
next
  fix r f oper v rest
  assume "oper \<notin> {''='', ''!='', ''>'', ''<'', ''>='', ''<=''}"
  then show "match r ((f, oper, v) # rest) = Inl ValidationError"
    by (rule match_unknown_operator)
next
  fix r pre rest
  show "match r (pre @ rest) =
         (case match r pre of Inl e \<Rightarrow> Inl e | Inr b \<Rightarrow> if b then match r rest else Inr False)"
    by (rule match_conjunction)
next
  fix r pre rest
  assume "match r pre = Inr False"
  then show "match r (pre @ rest) = Inr False" by (rule match_append)
qed (rule match_and_example match_null_equality_example)+

theorem match_null_ordering_witness:
  "get [''age'' \<mapsto> VNone] ''age'' = VNone
   \<and> match [''age'' \<mapsto> VNone] [(''age'', ''>'', VInt 5)] = Inr False
   \<and> match [''age'' \<mapsto> VNone] [(''age'', ''<'', VInt 5)] = Inr False
   \<and> match [''age'' \<mapsto> VNone] [(''age'', ''>='', VInt 5)] = Inr False
   \<and> match [''age'' \<mapsto> VNone] [(''age'', ''<='', VInt 5)] = Inr False
   \<and> match [''name'' \<mapsto> VStr ''Al'', ''age'' \<mapsto> VNone] [(''name'', ''='', VStr ''Al'')] = Inr True
   \<and> get [''name'' \<mapsto> VStr ''Al'', ''age'' \<mapsto> VNone] ''age'' = VNone
   \<and> match [''name'' \<mapsto> VStr ''Al'', ''age'' \<mapsto> VNone]
        ([(''name'', ''='', VStr ''Al'')] @ (''age'', ''<='', VInt 5) # [(''name'', ''>'', VInt 1)]) = Inr False
   \<and> get [''age'' \<mapsto> VInt 40] ''age'' \<noteq> VNone \<and> VInt 25 \<noteq> VNone
   \<and> py_ge (get [''age'' \<mapsto> VInt 40] ''age'') (VInt 25) = Inr True
   \<and> match [''age'' \<mapsto> VInt 40] ((''age'', ''>='', VInt 25) # [(''age'', ''<='', VInt 35)])
        = match [''age'' \<mapsto> VInt 40] [(''age'', ''<='', VInt 35)]
   \<and> ''~'' \<notin> {''='', ''!='', ''>'', ''<'', ''>='', ''<=''}
   \<and> match [''age'' \<mapsto> VInt 40] ((''age'', ''~'', VInt 25) # []) = Inl ValidationError
   \<and> match [''age'' \<mapsto> VInt 20] [(''age'', ''>='', VInt 25)] = Inr False
   \<and> match [''age'' \<mapsto> VInt 20] ([(''age'', ''>='', VInt 25)] @ [(''age'', ''<'', VStr ''x'')]) = Inr False"
proof -
  note T = match_null_ordering
  let ?r = "[''name'' \<mapsto> VStr ''Al'', ''age'' \<mapsto> VNone]"
  have g: "get [''age'' \<mapsto> VNone] ''age'' = VNone" by (simp add: get_def)
  have m: "match [''age'' \<mapsto> VInt 20] [(''age'', ''>='', VInt 25)] = Inr False"
    by (simp add: get_def ordering_def py_ge_def num_eq_def)
  have p: "match ?r [(''name'', ''='', VStr ''Al'')] = Inr True" by (simp add: get_def)
  have g2: "get ?r ''age'' = VNone" by (simp add: get_def)
  have n: "get [''age'' \<mapsto> VInt 40] ''age'' \<noteq> VNone \<and> VInt 25 \<noteq> VNone" by (simp add: get_def)
  have ge: "py_ge (get [''age'' \<mapsto> VInt 40] ''age'') (VInt 25) = Inr True"
    by (simp add: get_def py_ge_def num_eq_def)
  have u: "''~'' \<notin> {''='', ''!='', ''>'', ''<'', ''>='', ''<=''}" by simp
  note h1 = T[THEN conjunct1, THEN spec[where x = "[''age'' \<mapsto> VNone]"], THEN spec[where x = "''age''"]]
  have 1: "match [''age'' \<mapsto> VNone] [(''age'', ''>'', VInt 5)] = Inr False"
    using h1[THEN spec[where x = "''>''"], THEN spec[where x = "VInt 5"], THEN spec[where x = "[]"]] g
    by simp
  have 2: "match [''age'' \<mapsto> VNone] [(''age'', ''<'', VInt 5)] = Inr False"
    using h1[THEN spec[where x = "''<''"], THEN spec[where x = "VInt 5"], THEN spec[where x = "[]"]] g
    by simp
  have 3: "match [''age'' \<mapsto> VNone] [(''age'', ''>='', VInt 5)] = Inr False"
    using h1[THEN spec[where x = "''>=''"], THEN spec[where x = "VInt 5"], THEN spec[where x = "[]"]] g
    by simp
  have 4: "match [''age'' \<mapsto> VNone] [(''age'', ''<='', VInt 5)] = Inr False"
    using h1[THEN spec[where x = "''<=''"], THEN spec[where x = "VInt 5"], THEN spec[where x = "[]"]] g
    by simp
  have 5: "match ?r ([(''name'', ''='', VStr ''Al'')] @ (''age'', ''<='', VInt 5) # [(''name'', ''>'', VInt 1)])
        = Inr False"
    using T[THEN conjunct2, THEN conjunct1, THEN spec[where x = ?r],
        THEN spec[where x = "[(''name'', ''='', VStr ''Al'')]"], THEN spec[where x = True],
        THEN spec[where x = "''age''"], THEN spec[where x = "''<=''"], THEN spec[where x = "VInt 5"],
        THEN spec[where x = "[(''name'', ''>'', VInt 1)]"]] p g2
    by simp
  have 6: "match [''age'' \<mapsto> VInt 40] ((''age'', ''>='', VInt 25) # [(''age'', ''<='', VInt 35)])
        = match [''age'' \<mapsto> VInt 40] [(''age'', ''<='', VInt 35)]"
    using T[THEN conjunct2, THEN conjunct2, THEN conjunct1, THEN spec[where x = "[''age'' \<mapsto> VInt 40]"],
        THEN spec[where x = "''age''"], THEN spec[where x = "VInt 25"],
        THEN spec[where x = "[(''age'', ''<='', VInt 35)]"], THEN mp, OF n,
        THEN conjunct2, THEN conjunct2, THEN conjunct1]
    by (simp only: ge sum.case if_True)
  have 7: "match [''age'' \<mapsto> VInt 40] ((''age'', ''~'', VInt 25) # []) = Inl ValidationError"
    using T[THEN conjunct2, THEN conjunct2, THEN conjunct2, THEN conjunct2, THEN conjunct2,
        THEN conjunct2, THEN conjunct2, THEN conjunct2, THEN conjunct1,
        THEN spec[where x = "[''age'' \<mapsto> VInt 40]"], THEN spec[where x = "''age''"],
        THEN spec[where x = "''~''"], THEN spec[where x = "VInt 25"], THEN spec[where x = "[]"],
        THEN mp, OF u] .
  have 8: "match [''age'' \<mapsto> VInt 20] ([(''age'', ''>='', VInt 25)] @ [(''age'', ''<'', VStr ''x'')]) = Inr False"
    using T[THEN conjunct2, THEN conjunct2, THEN conjunct2, THEN conjunct2, THEN conjunct2,
        THEN conjunct2, THEN conjunct2, THEN conjunct2, THEN conjunct2, THEN conjunct2, THEN conjunct1,
        THEN spec[where x = "[''age'' \<mapsto> VInt 20]"], THEN spec[where x = "[(''age'', ''>='', VInt 25)]"],
        THEN spec[where x = "[(''age'', ''<'', VStr ''x'')]"], THEN mp, OF m] .
  show ?thesis using g 1 2 3 4 p g2 5 n ge 6 u 7 m 8 by (intro conjI) simp_all
qed

section \<open>Grammar A: longest operator first\<close>





lemma strip_front_suffix: "suffix (strip_front s1 s2 s3 s) s"
proof (induction s1 s2 s3 s rule: strip_front.induct)
  case (1 s1 s2 s3 a b c cs)
  then show ?case by (auto intro: suffix_ConsI)
qed (auto intro: suffix_ConsI)


lemma lstrip_length: "length (lstrip s) \<le> length s"
  unfolding lstrip_def using strip_front_suffix suffix_length_le by blast

















lemma identifier_plain: "f \<noteq> [] \<Longrightarrow> list_all ident_char f \<Longrightarrow> is_identifier f \<Longrightarrow> ensure_identifier f = Inr f"
  by (simp add: ensure_identifier_def)







section \<open>Insert: validation before mutation\<close>


lemma PrimitiveDB_insert_failure:
  "fst (PrimitiveDB_insert s t vals) = Inl e \<Longrightarrow> snd (PrimitiveDB_insert s t vals) = s"
  by (auto simp: PrimitiveDB_insert_def Let_def split: sum.splits if_splits)

lemma DBEngine_insert_failure:
  "fst (DBEngine_insert eng t pairs) = Inl e \<Longrightarrow> snd (DBEngine_insert eng t pairs) = eng"
  by (auto simp: DBEngine_insert_def Let_def split: sum.splits option.splits if_splits)

lemma coerce_row_success:
  "coerce_row sch vals r = Inr r' \<Longrightarrow>
   \<forall>(f, ty) \<in> set sch. \<exists>raw v. vals f = Some raw \<and> parse_scalar raw ty = Inr v"
  by (induction sch vals r rule: coerce_row.induct) (auto split: option.splits sum.splits)

lemma cast_fields_success:
  "cast_fields flds data r = Inr r' \<Longrightarrow>
   \<forall>(f, ty) \<in> set flds. \<exists>raw v. data f = Some raw \<and> cast_value ty raw = Inr v"
  by (induction flds data r rule: cast_fields.induct) (auto split: option.splits sum.splits)

lemma filter_empty_conv': "filter P xs = [] \<Longrightarrow> x \<in> set xs \<Longrightarrow> \<not> P x"
  by (simp add: filter_empty_conv)

lemma PrimitiveDB_insert_success:
  assumes "PrimitiveDB_insert s t vals = (Inr r, s')"
  shows "\<exists>info. meta s t = Some info
    \<and> (\<forall>(f, ty) \<in> set (schema info). \<exists>raw v. map_of vals f = Some raw \<and> parse_scalar raw ty = Inr v)
    \<and> (\<forall>f \<in> fst ` set vals. f \<in> fst ` set (schema info))
    \<and> r ''id'' = Some (VInt (last_id_of s t + 1))
    \<and> last_id_of s' t = last_id_of s t + 1
    \<and> load_table s' t = load_table s t @ [r]"
proof -
  from assms obtain info where info: "meta s t = Some info"
    by (auto simp: PrimitiveDB_insert_def get_table_def split: sum.splits option.splits)
  from assms info have extra: "filter (\<lambda>f. map_of (schema info) f = None) (map fst vals) = []"
    by (auto simp: PrimitiveDB_insert_def get_table_def Let_def split: sum.splits if_splits)
  from assms info obtain r0 where r0: "coerce_row (schema info) (map_of vals) Map.empty = Inr r0"
    and r: "r = r0(''id'' \<mapsto> VInt (last_id_of s t + 1))"
    and s': "s' = touch (s\<lparr>meta := (meta s)(t \<mapsto> info\<lparr>last_id := Some (last_id_of s t + 1)\<rparr>),
                data_files := (data_files s)(t \<mapsto> load_table s t @ [r]),
                meta_file := (meta s)(t \<mapsto> info\<lparr>last_id := Some (last_id_of s t + 1)\<rparr>)\<rparr>) t"
    by (auto simp: PrimitiveDB_insert_def get_table_def Let_def last_id_of_def
        split: sum.splits if_splits)
  have "\<forall>f \<in> fst ` set vals. f \<in> fst ` set (schema info)"
  proof
    fix f assume "f \<in> fst ` set vals"
    then have "map_of (schema info) f \<noteq> None"
      using filter_empty_conv'[OF extra, of f] by simp
    then show "f \<in> fst ` set (schema info)" by (simp add: map_of_eq_None_iff)
  qed
  moreover have "last_id_of s' t = last_id_of s t + 1" "load_table s' t = load_table s t @ [r]"
    unfolding s' by (simp_all add: touch_def last_id_of_def load_table_def)
  moreover have "r ''id'' = Some (VInt (last_id_of s t + 1))" unfolding r by simp
  ultimately show ?thesis using info coerce_row_success[OF r0] by blast
qed

lemma DBEngine_insert_success:
  assumes "DBEngine_insert eng t pairs = (Inr r, eng')"
  shows "\<exists>flds. tables eng t = Some flds
    \<and> (\<forall>(f, ty) \<in> set flds. \<exists>raw v. map_of pairs f = Some raw \<and> cast_value ty raw = Inr v)
    \<and> (\<forall>f \<in> fst ` set pairs. f \<in> fst ` set flds)
    \<and> r ''id'' = Some (VInt (counter_of eng t + 1))
    \<and> counter_of eng' t = counter_of eng t + 1
    \<and> read_rows eng' t = read_rows eng t @ [r]"
proof -
  from assms obtain flds where flds: "tables eng t = Some flds"
    by (auto simp: DBEngine_insert_def engine_schema_def split: sum.splits option.splits)
  from assms flds have unknown: "filter (\<lambda>f. map_of flds f = None) (map fst pairs) = []"
    by (auto simp: DBEngine_insert_def engine_schema_def validate_insert_def Let_def
        split: sum.splits if_splits)
  from assms flds obtain r0 where r0: "cast_fields flds (map_of pairs) Map.empty = Inr r0"
    and r: "r = r0(''id'' \<mapsto> VInt (counter_of eng t + 1))"
    and e': "eng' = eng\<lparr>table_files := (table_files eng)(t \<mapsto> read_rows eng t @ [r]),
                counters := (counters eng)(t \<mapsto> counter_of eng t + 1)\<rparr>"
    by (auto simp: DBEngine_insert_def engine_schema_def validate_insert_def Let_def counter_of_def
        split: sum.splits if_splits option.splits)
  have "\<forall>f \<in> fst ` set pairs. f \<in> fst ` set flds"
  proof
    fix f assume "f \<in> fst ` set pairs"
    then have "map_of flds f \<noteq> None"
      using filter_empty_conv'[OF unknown, of f] by simp
    then show "f \<in> fst ` set flds" by (simp add: map_of_eq_None_iff)
  qed
  moreover have "counter_of eng' t = counter_of eng t + 1" "read_rows eng' t = read_rows eng t @ [r]"
    unfolding e' by (simp_all add: counter_of_def read_rows_def)
  moreover have "r ''id'' = Some (VInt (counter_of eng t + 1))" unfolding r by simp
  ultimately show ?thesis using flds cast_fields_success[OF r0] by blast
qed

subsection \<open>The example states, evaluated\<close>


lemma ident_users: "ensure_identifier ''users'' = Inr ''users''"
  by code_simp

lemma users_db_eq:
  "users_db =
     \<lparr>meta = [''users'' \<mapsto> \<lparr>schema = [(''name'', ''str''), (''age'', ''int'')], last_id = Some 0\<rparr>],
      meta_file = [''users'' \<mapsto> \<lparr>schema = [(''name'', ''str''), (''age'', ''int'')], last_id = Some 0\<rparr>],
      versions = [''users'' \<mapsto> 0],
      select_cache = Map.empty,
      data_files = [''users'' \<mapsto> []]\<rparr>"
  by (simp add: users_db_def PrimitiveDB_create_table_def PrimitiveDB_init_def ident_users
      SUPPORTED_TYPES_def Let_def)

lemma users_engine_eq:
  "users_engine =
     \<lparr>tables = [''users'' \<mapsto> [(''name'', ''str''), (''age'', ''int'')]],
      counters = [''users'' \<mapsto> 0],
      table_files = [''users'' \<mapsto> []]\<rparr>"
proof -
  have "parse_schema_parts [''name:str'', ''age:int''] = Inr [(''name'', ''str''), (''age'', ''int'')]"
    by code_simp
  then show ?thesis
    by (simp add: users_engine_def DBEngine_create_table_def DBEngine_open_def)
qed

lemma parse_scalar_examples:
  "parse_scalar ''Alice'' ''str'' = Inr (VStr ''Alice'')"
  "parse_scalar ''30'' ''int'' = Inr (VInt 30)"
  "parse_scalar ''abc'' ''int'' = Inl ValidationError"
  by code_simp+

lemma cast_value_examples:
  "cast_value ''str'' ''Alice'' = Inr (VStr ''Alice'')"
  "cast_value ''int'' ''30'' = Inr (VInt 30)"
  "cast_value ''int'' ''abc'' = Inl TypeErrorDB"
  by code_simp+

lemma users_db_insert_missing:
  "fst (PrimitiveDB_insert users_db ''users'' [(''name'', ''Alice'')]) = Inl ValidationError"
  by (simp add: users_db_eq PrimitiveDB_insert_def ident_users get_table_def)

lemma users_db_insert_unknown:
  "fst (PrimitiveDB_insert users_db ''users'' [(''name'', ''Alice''), (''age'', ''30''), (''zip'', ''1'')])
     = Inl ValidationError"
  by (simp add: users_db_eq PrimitiveDB_insert_def ident_users get_table_def)

lemma users_db_insert_malformed:
  "fst (PrimitiveDB_insert users_db ''users'' [(''name'', ''Alice''), (''age'', ''abc'')])
     = Inl ValidationError"
  by (simp add: users_db_eq PrimitiveDB_insert_def ident_users get_table_def parse_scalar_examples Let_def)

lemma users_db_insert_ok:
  "fst (PrimitiveDB_insert users_db ''users'' [(''name'', ''Alice''), (''age'', ''30'')])
     = Inr [''name'' \<mapsto> VStr ''Alice'', ''age'' \<mapsto> VInt 30, ''id'' \<mapsto> VInt 1]"
  by (simp add: users_db_eq PrimitiveDB_insert_def ident_users get_table_def parse_scalar_examples Let_def)

lemma users_engine_insert_missing:
  "fst (DBEngine_insert users_engine ''users'' [(''name'', ''Alice'')]) = Inl SchemaError"
  by (simp add: users_engine_eq DBEngine_insert_def engine_schema_def validate_insert_def)

lemma users_engine_insert_unknown:
  "fst (DBEngine_insert users_engine ''users'' [(''name'', ''Alice''), (''age'', ''30''), (''zip'', ''1'')])
     = Inl SchemaError"
  by (simp add: users_engine_eq DBEngine_insert_def engine_schema_def validate_insert_def)

lemma users_engine_insert_malformed:
  "fst (DBEngine_insert users_engine ''users'' [(''name'', ''Alice''), (''age'', ''abc'')])
     = Inl TypeErrorDB"
  by (simp add: users_engine_eq DBEngine_insert_def engine_schema_def validate_insert_def
      cast_value_examples Let_def)

lemma users_engine_insert_ok:
  "fst (DBEngine_insert users_engine ''users'' [(''name'', ''Alice''), (''age'', ''30'')])
     = Inr [''name'' \<mapsto> VStr ''Alice'', ''age'' \<mapsto> VInt 30, ''id'' \<mapsto> VInt 1]"
  by (simp add: users_engine_eq DBEngine_insert_def engine_schema_def validate_insert_def
      cast_value_examples Let_def)

text \<open>
  C7. In both engines an insert that fails leaves the whole state as it was, the id
  counter and the stored rows included. An insert that succeeds found every field of
  the schema among the values, with a value that its type accepts, and no field outside
  the schema; it is then that the counter grows by one and the row, carrying the new
  counter as its \<open>id\<close>, is appended to the rows of the table.
\<close>

theorem insert_validates_before_mutation:
  "(\<forall>s t vals e. fst (PrimitiveDB_insert s t vals) = Inl e \<longrightarrow> snd (PrimitiveDB_insert s t vals) = s)
   \<and> (\<forall>eng t pairs e. fst (DBEngine_insert eng t pairs) = Inl e \<longrightarrow> snd (DBEngine_insert eng t pairs) = eng)
   \<and> (\<forall>s t vals r. fst (PrimitiveDB_insert s t vals) = Inr r \<longrightarrow>
        (\<exists>info. meta s t = Some info
          \<and> (\<forall>(f, ty) \<in> set (schema info). \<exists>raw v. map_of vals f = Some raw \<and> parse_scalar raw ty = Inr v)
          \<and> (\<forall>f \<in> fst ` set vals. f \<in> fst ` set (schema info))
          \<and> r ''id'' = Some (VInt (last_id_of s t + 1))
          \<and> last_id_of (snd (PrimitiveDB_insert s t vals)) t = last_id_of s t + 1
          \<and> load_table (snd (PrimitiveDB_insert s t vals)) t = load_table s t @ [r]))
   \<and> (\<forall>eng t pairs r. fst (DBEngine_insert eng t pairs) = Inr r \<longrightarrow>
        (\<exists>flds. tables eng t = Some flds
          \<and> (\<forall>(f, ty) \<in> set flds. \<exists>raw v. map_of pairs f = Some raw \<and> cast_value ty raw = Inr v)
          \<and> (\<forall>f \<in> fst ` set pairs. f \<in> fst ` set flds)
          \<and> r ''id'' = Some (VInt (counter_of eng t + 1))
          \<and> counter_of (snd (DBEngine_insert eng t pairs)) t = counter_of eng t + 1
          \<and> read_rows (snd (DBEngine_insert eng t pairs)) t = read_rows eng t @ [r]))"
proof (intro conjI allI impI)
  fix s t vals e
  assume "fst (PrimitiveDB_insert s t vals) = Inl e"
  then show "snd (PrimitiveDB_insert s t vals) = s" by (rule PrimitiveDB_insert_failure)
next
  fix eng t pairs e
  assume "fst (DBEngine_insert eng t pairs) = Inl e"
  then show "snd (DBEngine_insert eng t pairs) = eng" by (rule DBEngine_insert_failure)
next
  fix s t vals r
  assume "fst (PrimitiveDB_insert s t vals) = Inr r"
  then have "PrimitiveDB_insert s t vals = (Inr r, snd (PrimitiveDB_insert s t vals))"
    by (metis prod.collapse)
  then show "\<exists>info. meta s t = Some info
          \<and> (\<forall>(f, ty) \<in> set (schema info). \<exists>raw v. map_of vals f = Some raw \<and> parse_scalar raw ty = Inr v)
          \<and> (\<forall>f \<in> fst ` set vals. f \<in> fst ` set (schema info))
          \<and> r ''id'' = Some (VInt (last_id_of s t + 1))
          \<and> last_id_of (snd (PrimitiveDB_insert s t vals)) t = last_id_of s t + 1
          \<and> load_table (snd (PrimitiveDB_insert s t vals)) t = load_table s t @ [r]"
    by (rule PrimitiveDB_insert_success)
next
  fix eng t pairs r
  assume "fst (DBEngine_insert eng t pairs) = Inr r"
  then have "DBEngine_insert eng t pairs = (Inr r, snd (DBEngine_insert eng t pairs))"
    by (metis prod.collapse)
  then show "\<exists>flds. tables eng t = Some flds
          \<and> (\<forall>(f, ty) \<in> set flds. \<exists>raw v. map_of pairs f = Some raw \<and> cast_value ty raw = Inr v)
          \<and> (\<forall>f \<in> fst ` set pairs. f \<in> fst ` set flds)
          \<and> r ''id'' = Some (VInt (counter_of eng t + 1))
          \<and> counter_of (snd (DBEngine_insert eng t pairs)) t = counter_of eng t + 1
          \<and> read_rows (snd (DBEngine_insert eng t pairs)) t = read_rows eng t @ [r]"
    by (rule DBEngine_insert_success)
qed

theorem insert_validates_before_mutation_witness:
  "fst (PrimitiveDB_insert users_db ''users'' [(''name'', ''Alice'')]) = Inl ValidationError
   \<and> snd (PrimitiveDB_insert users_db ''users'' [(''name'', ''Alice'')]) = users_db
   \<and> fst (PrimitiveDB_insert users_db ''users'' [(''name'', ''Alice''), (''age'', ''30''), (''zip'', ''1'')])
        = Inl ValidationError
   \<and> snd (PrimitiveDB_insert users_db ''users'' [(''name'', ''Alice''), (''age'', ''30''), (''zip'', ''1'')])
        = users_db
   \<and> fst (PrimitiveDB_insert users_db ''users'' [(''name'', ''Alice''), (''age'', ''abc'')])
        = Inl ValidationError
   \<and> snd (PrimitiveDB_insert users_db ''users'' [(''name'', ''Alice''), (''age'', ''abc'')]) = users_db
   \<and> fst (DBEngine_insert users_engine ''users'' [(''name'', ''Alice'')]) = Inl SchemaError
   \<and> snd (DBEngine_insert users_engine ''users'' [(''name'', ''Alice'')]) = users_engine
   \<and> fst (DBEngine_insert users_engine ''users'' [(''name'', ''Alice''), (''age'', ''30''), (''zip'', ''1'')])
        = Inl SchemaError
   \<and> snd (DBEngine_insert users_engine ''users'' [(''name'', ''Alice''), (''age'', ''30''), (''zip'', ''1'')])
        = users_engine
   \<and> fst (DBEngine_insert users_engine ''users'' [(''name'', ''Alice''), (''age'', ''abc'')])
        = Inl TypeErrorDB
   \<and> snd (DBEngine_insert users_engine ''users'' [(''name'', ''Alice''), (''age'', ''abc'')])
        = users_engine
   \<and> fst (PrimitiveDB_insert users_db ''users'' [(''name'', ''Alice''), (''age'', ''30'')])
        = Inr [''name'' \<mapsto> VStr ''Alice'', ''age'' \<mapsto> VInt 30, ''id'' \<mapsto> VInt 1]
   \<and> last_id_of (snd (PrimitiveDB_insert users_db ''users'' [(''name'', ''Alice''), (''age'', ''30'')])) ''users''
        = last_id_of users_db ''users'' + 1
   \<and> fst (DBEngine_insert users_engine ''users'' [(''name'', ''Alice''), (''age'', ''30'')])
        = Inr [''name'' \<mapsto> VStr ''Alice'', ''age'' \<mapsto> VInt 30, ''id'' \<mapsto> VInt 1]
   \<and> counter_of (snd (DBEngine_insert users_engine ''users'' [(''name'', ''Alice''), (''age'', ''30'')])) ''users''
        = counter_of users_engine ''users'' + 1"
proof -
  note T = insert_validates_before_mutation
  note p = T[THEN conjunct1, rule_format]
  note e = T[THEN conjunct2, THEN conjunct1, rule_format]
  note ps = T[THEN conjunct2, THEN conjunct2, THEN conjunct1, rule_format]
  note es = T[THEN conjunct2, THEN conjunct2, THEN conjunct2, rule_format]
  from ps[OF users_db_insert_ok]
  have 1: "last_id_of (snd (PrimitiveDB_insert users_db ''users'' [(''name'', ''Alice''), (''age'', ''30'')])) ''users''
        = last_id_of users_db ''users'' + 1"
    by blast
  from es[OF users_engine_insert_ok]
  have 2: "counter_of (snd (DBEngine_insert users_engine ''users'' [(''name'', ''Alice''), (''age'', ''30'')])) ''users''
        = counter_of users_engine ''users'' + 1"
    by blast
  show ?thesis
    using p[OF users_db_insert_missing] p[OF users_db_insert_unknown] p[OF users_db_insert_malformed]
      e[OF users_engine_insert_missing] e[OF users_engine_insert_unknown]
      e[OF users_engine_insert_malformed]
      users_db_insert_missing users_db_insert_unknown users_db_insert_malformed
      users_engine_insert_missing users_engine_insert_unknown users_engine_insert_malformed
      users_db_insert_ok users_engine_insert_ok 1 2
    by simp
qed

section \<open>The id counter\<close>


lemma PrimitiveDB_select_meta: "meta (snd (PrimitiveDB_select s t wh)) = meta s"
  by (auto simp: PrimitiveDB_select_def select_cached_def split: sum.splits option.splits)

lemma PrimitiveDB_update_meta: "meta (snd (PrimitiveDB_update s t sv wh)) = meta s"
  by (auto simp: PrimitiveDB_update_def touch_def split: sum.splits option.splits prod.splits)

lemma PrimitiveDB_delete_meta: "meta (snd (PrimitiveDB_delete s c t wh)) = meta s"
  by (auto simp: PrimitiveDB_delete_def touch_def split: sum.splits option.splits)

lemma PrimitiveDB_create_table_meta_other:
  "t' \<noteq> t \<Longrightarrow> meta (snd (PrimitiveDB_create_table s t' columns)) t = meta s t"
  by (auto simp: PrimitiveDB_create_table_def Let_def split: sum.splits)

lemma PrimitiveDB_drop_table_meta_other:
  "t' \<noteq> t \<Longrightarrow> meta (snd (PrimitiveDB_drop_table s c t')) t = meta s t"
  by (auto simp: PrimitiveDB_drop_table_def Let_def split: sum.splits)

lemma PrimitiveDB_insert_meta_other:
  "t' \<noteq> t \<Longrightarrow> meta (snd (PrimitiveDB_insert s t' vals)) t = meta s t"
  by (auto simp: PrimitiveDB_insert_def Let_def touch_def split: sum.splits)

lemma PrimitiveDB_create_table_last_id:
  "fst (PrimitiveDB_create_table s t columns) = Inr () \<Longrightarrow>
   last_id_of (snd (PrimitiveDB_create_table s t columns)) t = 0"
  by (auto simp: PrimitiveDB_create_table_def Let_def last_id_of_def split: sum.splits if_splits)


lemma consecutive_Nil: "consecutive c []"
  by (simp add: consecutive_def)

lemma consecutive_Cons: "consecutive c (x # xs) = (x = Some (VInt (c + 1)) \<and> consecutive (c + 1) xs)"
proof -
  have "map (\<lambda>i. Some (VInt (c + 1 + int i))) [0..<Suc (length xs)]
        = Some (VInt (c + 1)) # map (\<lambda>i. Some (VInt (c + 1 + 1 + int i))) [0..<length xs]"
    by (simp add: upt_conv_Cons map_Suc_upt[symmetric] del: upt_Suc)
  then show ?thesis by (auto simp: consecutive_def)
qed

lemma PrimitiveDB_step_ids:
  assumes "\<not> touches_table t c"
  shows "(ids_of t (fst (PrimitiveDB_step s c)) = [] \<and> last_id_of (snd (PrimitiveDB_step s c)) t = last_id_of s t)
       \<or> (ids_of t (fst (PrimitiveDB_step s c)) = [Some (VInt (last_id_of s t + 1))]
            \<and> last_id_of (snd (PrimitiveDB_step s c)) t = last_id_of s t + 1)"
proof (cases c)
  case (CreateTable t' columns)
  with assms have "t' \<noteq> t" by (simp add: touches_table_def)
  then show ?thesis using CreateTable
    by (simp add: ids_of_def last_id_of_def PrimitiveDB_create_table_meta_other)
next
  case (DropTable confirm t')
  with assms have "t' \<noteq> t" by (simp add: touches_table_def)
  then show ?thesis using DropTable
    by (simp add: ids_of_def last_id_of_def PrimitiveDB_drop_table_meta_other)
next
  case (Insert t' vals)
  show ?thesis
  proof (cases "t' = t")
    case False
    then show ?thesis using Insert
      by (auto simp: ids_of_def last_id_of_def PrimitiveDB_insert_meta_other[OF False, of s vals, symmetric]
          split: prod.splits sum.splits)
  next
    case True
    show ?thesis
    proof (cases "fst (PrimitiveDB_insert s t vals)")
      case (Inl e)
      then have "snd (PrimitiveDB_insert s t vals) = s" by (rule PrimitiveDB_insert_failure)
      with Inl show ?thesis using Insert True
        by (auto simp: ids_of_def split: prod.splits sum.splits)
    next
      case (Inr r)
      then have "PrimitiveDB_insert s t vals = (Inr r, snd (PrimitiveDB_insert s t vals))"
        by (metis prod.collapse)
      from PrimitiveDB_insert_success[OF this] Inr show ?thesis using Insert True
        by (auto simp: ids_of_def split: prod.splits sum.splits)
    qed
  qed
next
  case (Select t' wh)
  then show ?thesis by (simp add: ids_of_def last_id_of_def PrimitiveDB_select_meta)
next
  case (Update t' sv wh)
  then show ?thesis by (simp add: ids_of_def last_id_of_def PrimitiveDB_update_meta)
next
  case (Delete confirm t' wh)
  then show ?thesis by (simp add: ids_of_def last_id_of_def PrimitiveDB_delete_meta)
qed

lemma ids_of_append: "ids_of t (a @ b) = ids_of t a @ ids_of t b"
  by (simp add: ids_of_def)

lemma PrimitiveDB_run_ids:
  assumes "\<forall>c \<in> set cs. \<not> touches_table t c"
  shows "consecutive (last_id_of s t) (ids_of t (fst (PrimitiveDB_run s cs)))
       \<and> last_id_of (snd (PrimitiveDB_run s cs)) t
           = last_id_of s t + int (length (ids_of t (fst (PrimitiveDB_run s cs))))"
  using assms
proof (induction cs arbitrary: s)
  case Nil
  then show ?case by (simp add: ids_of_def consecutive_Nil)
next
  case (Cons c cs)
  then have c: "\<not> touches_table t c" and cs: "\<forall>c \<in> set cs. \<not> touches_table t c" by simp_all
  obtain lg1 s1 where step: "PrimitiveDB_step s c = (lg1, s1)" by (cases "PrimitiveDB_step s c")
  obtain lg2 s2 where run: "PrimitiveDB_run s1 cs = (lg2, s2)" by (cases "PrimitiveDB_run s1 cs")
  from Cons.IH[OF cs, of s1] run
  have ih: "consecutive (last_id_of s1 t) (ids_of t lg2)"
    "last_id_of s2 t = last_id_of s1 t + int (length (ids_of t lg2))" by simp_all
  from PrimitiveDB_step_ids[OF c, of s] step
  consider "ids_of t lg1 = []" "last_id_of s1 t = last_id_of s t"
    | "ids_of t lg1 = [Some (VInt (last_id_of s t + 1))]" "last_id_of s1 t = last_id_of s t + 1"
    by auto
  then show ?case
  proof cases
    case 1
    with ih show ?thesis by (simp add: step run ids_of_append)
  next
    case 2
    with ih show ?thesis by (simp add: step run ids_of_append consecutive_Cons)
  qed
qed

lemma DBEngine_select_state: "snd (DBEngine_select p e t wh) = e"
  by (auto simp: DBEngine_select_def split: sum.splits)

lemma DBEngine_update_counters: "counters (snd (DBEngine_update p e t sp wh)) = counters e"
  by (auto simp: DBEngine_update_def split: sum.splits prod.splits)

lemma DBEngine_delete_counters: "counters (snd (DBEngine_delete p e t wh)) = counters e"
  by (auto simp: DBEngine_delete_def split: sum.splits)

lemma DBEngine_create_table_counters_other:
  "t' \<noteq> t \<Longrightarrow> counters (snd (DBEngine_create_table e t' parts)) t = counters e t"
  by (auto simp: DBEngine_create_table_def split: sum.splits)

lemma DBEngine_drop_table_counters_other:
  "t' \<noteq> t \<Longrightarrow> counters (snd (DBEngine_drop_table e t')) t = counters e t"
  by (auto simp: DBEngine_drop_table_def)

lemma DBEngine_insert_counters_other:
  "t' \<noteq> t \<Longrightarrow> counters (snd (DBEngine_insert e t' pairs)) t = counters e t"
  by (auto simp: DBEngine_insert_def Let_def split: sum.splits option.splits)

lemma DBEngine_create_table_counter:
  "fst (DBEngine_create_table e t parts) = Inr () \<Longrightarrow>
   counter_of (snd (DBEngine_create_table e t parts)) t = 0"
  by (auto simp: DBEngine_create_table_def counter_of_def split: sum.splits if_splits)

lemma DBEngine_step_ids:
  assumes "\<not> etouches_table t c"
  shows "(ids_of t (fst (DBEngine_step p e c)) = [] \<and> counter_of (snd (DBEngine_step p e c)) t = counter_of e t)
       \<or> (ids_of t (fst (DBEngine_step p e c)) = [Some (VInt (counter_of e t + 1))]
            \<and> counter_of (snd (DBEngine_step p e c)) t = counter_of e t + 1)"
proof (cases c)
  case (ECreateTable t' parts)
  with assms have "t' \<noteq> t" by (simp add: etouches_table_def)
  then show ?thesis using ECreateTable
    by (simp add: ids_of_def counter_of_def DBEngine_create_table_counters_other)
next
  case (EDropTable t')
  with assms have "t' \<noteq> t" by (simp add: etouches_table_def)
  then show ?thesis using EDropTable
    by (simp add: ids_of_def counter_of_def DBEngine_drop_table_counters_other)
next
  case (EInsert t' pairs)
  show ?thesis
  proof (cases "t' = t")
    case False
    then show ?thesis using EInsert
      by (auto simp: ids_of_def counter_of_def DBEngine_insert_counters_other[OF False, of e pairs, symmetric]
          split: prod.splits sum.splits)
  next
    case True
    show ?thesis
    proof (cases "fst (DBEngine_insert e t pairs)")
      case (Inl x)
      then have "snd (DBEngine_insert e t pairs) = e" by (rule DBEngine_insert_failure)
      with Inl show ?thesis using EInsert True
        by (auto simp: ids_of_def split: prod.splits sum.splits)
    next
      case (Inr r)
      then have "DBEngine_insert e t pairs = (Inr r, snd (DBEngine_insert e t pairs))"
        by (metis prod.collapse)
      from DBEngine_insert_success[OF this] Inr show ?thesis using EInsert True
        by (auto simp: ids_of_def split: prod.splits sum.splits)
    qed
  qed
next
  case (ESelect t' wh)
  then show ?thesis by (simp add: ids_of_def DBEngine_select_state)
next
  case (EUpdate t' sp wh)
  then show ?thesis by (simp add: ids_of_def counter_of_def DBEngine_update_counters)
next
  case (EDelete t' wh)
  then show ?thesis by (simp add: ids_of_def counter_of_def DBEngine_delete_counters)
qed

lemma DBEngine_run_ids:
  assumes "\<forall>c \<in> set cs. \<not> etouches_table t c"
  shows "consecutive (counter_of e t) (ids_of t (fst (DBEngine_run p e cs)))
       \<and> counter_of (snd (DBEngine_run p e cs)) t
           = counter_of e t + int (length (ids_of t (fst (DBEngine_run p e cs))))"
  using assms
proof (induction cs arbitrary: e)
  case Nil
  then show ?case by (simp add: ids_of_def consecutive_Nil)
next
  case (Cons c cs)
  then have c: "\<not> etouches_table t c" and cs: "\<forall>c \<in> set cs. \<not> etouches_table t c" by simp_all
  obtain lg1 e1 where step: "DBEngine_step p e c = (lg1, e1)" by (cases "DBEngine_step p e c")
  obtain lg2 e2 where run: "DBEngine_run p e1 cs = (lg2, e2)" by (cases "DBEngine_run p e1 cs")
  from Cons.IH[OF cs, of e1] run
  have ih: "consecutive (counter_of e1 t) (ids_of t lg2)"
    "counter_of e2 t = counter_of e1 t + int (length (ids_of t lg2))" by simp_all
  from DBEngine_step_ids[OF c, of p e] step
  consider "ids_of t lg1 = []" "counter_of e1 t = counter_of e t"
    | "ids_of t lg1 = [Some (VInt (counter_of e t + 1))]" "counter_of e1 t = counter_of e t + 1"
    by auto
  then show ?case
  proof cases
    case 1
    with ih show ?thesis by (simp add: step run ids_of_append)
  next
    case 2
    with ih show ?thesis by (simp add: step run ids_of_append consecutive_Cons)
  qed
qed

lemma PrimitiveDB_update_last_id: "last_id_of (snd (PrimitiveDB_update s t sv wh)) = last_id_of s"
  by (rule ext) (simp add: last_id_of_def PrimitiveDB_update_meta)

lemma PrimitiveDB_delete_last_id: "last_id_of (snd (PrimitiveDB_delete s c t wh)) = last_id_of s"
  by (rule ext) (simp add: last_id_of_def PrimitiveDB_delete_meta)

lemma DBEngine_update_counter: "counter_of (snd (DBEngine_update p e t sp wh)) = counter_of e"
  by (rule ext) (simp add: counter_of_def DBEngine_update_counters)

lemma DBEngine_delete_counter: "counter_of (snd (DBEngine_delete p e t wh)) = counter_of e"
  by (rule ext) (simp add: counter_of_def DBEngine_delete_counters)


lemma parse_scalar_more:
  "parse_scalar ''Bob'' ''str'' = Inr (VStr ''Bob'')"
  "parse_scalar ''25'' ''int'' = Inr (VInt 25)"
  "parse_scalar ''26'' ''int'' = Inr (VInt 26)"
  "parse_scalar ''Carol'' ''str'' = Inr (VStr ''Carol'')"
  "parse_scalar ''41'' ''int'' = Inr (VInt 41)"
  by code_simp+

lemma cast_value_more:
  "cast_value ''str'' ''Bob'' = Inr (VStr ''Bob'')"
  "cast_value ''int'' ''25'' = Inr (VInt 25)"
  "cast_value ''int'' ''26'' = Inr (VInt 26)"
  "cast_value ''str'' ''Carol'' = Inr (VStr ''Carol'')"
  "cast_value ''int'' ''41'' = Inr (VInt 41)"
  by code_simp+

lemma users_db_run_ids:
  "ids_of ''users''
     (fst (PrimitiveDB_run users_db
        [Insert ''users'' [(''name'', ''Alice''), (''age'', ''30'')],
         Delete True ''users'' None,
         Insert ''users'' [(''name'', ''Bob''), (''age'', ''25'')],
         Update ''users'' [(''age'', ''26'')] None,
         Insert ''users'' [(''name'', ''Carol''), (''age'', ''41'')]]))
   = [Some (VInt 1), Some (VInt 2), Some (VInt 3)]"
  by (simp add: users_db_eq PrimitiveDB_insert_def PrimitiveDB_delete_def PrimitiveDB_update_def
      coerce_where_def get_table_def ident_users touch_def version_of_def load_table_def Let_def
      ids_of_def parse_scalar_examples parse_scalar_more assign_all_def)

lemma users_engine_run_ids:
  "ids_of ''users''
     (fst (DBEngine_run (\<lambda>_. Inl PySyntaxError) users_engine
        [EInsert ''users'' [(''name'', ''Alice''), (''age'', ''30'')],
         EDelete ''users'' None,
         EInsert ''users'' [(''name'', ''Bob''), (''age'', ''25'')],
         EUpdate ''users'' [(''age'', ''26'')] None,
         EInsert ''users'' [(''name'', ''Carol''), (''age'', ''41'')]]))
   = [Some (VInt 1), Some (VInt 2), Some (VInt 3)]"
  by (simp add: users_engine_eq DBEngine_insert_def DBEngine_delete_def DBEngine_update_def
      engine_schema_def validate_insert_def validate_update_def read_rows_def Let_def
      ids_of_def cast_value_examples cast_value_more compile_where_def strip_def lstrip_def rstrip_def)

lemma users_db_created:
  "fst (PrimitiveDB_create_table (PrimitiveDB_init Map.empty Map.empty) ''users''
          [(''name'', ''str''), (''age'', ''int'')]) = Inr ()"
  by (simp add: PrimitiveDB_create_table_def PrimitiveDB_init_def ident_users SUPPORTED_TYPES_def
      Let_def)

lemma users_engine_created:
  "fst (DBEngine_create_table DBEngine_open ''users'' [''name:str'', ''age:int'']) = Inr ()"
proof -
  have "parse_schema_parts [''name:str'', ''age:int''] = Inr [(''name'', ''str''), (''age'', ''int'')]"
    by code_simp
  then show ?thesis by (simp add: DBEngine_create_table_def DBEngine_open_def)
qed

text \<open>
  C8. In both engines, over any run of commands that neither creates nor drops the
  table, the ids that the successful inserts into the table assign are the counter at
  the start plus 1, plus 2, and so on in the order of the inserts, so they increase
  strictly and none is assigned twice, and the counter ends that many above its start.
  A table that has just been created has the counter 0, so its first ids are 1, 2, 3.
  \<open>update\<close> and \<open>delete\<close> leave the counter of every table as it is.
\<close>

theorem insert_ids_monotonic:
  "(\<forall>s t cs. (\<forall>c \<in> set cs. \<not> touches_table t c) \<longrightarrow>
      consecutive (last_id_of s t) (ids_of t (fst (PrimitiveDB_run s cs)))
      \<and> last_id_of (snd (PrimitiveDB_run s cs)) t
           = last_id_of s t + int (length (ids_of t (fst (PrimitiveDB_run s cs)))))
   \<and> (\<forall>p e t cs. (\<forall>c \<in> set cs. \<not> etouches_table t c) \<longrightarrow>
      consecutive (counter_of e t) (ids_of t (fst (DBEngine_run p e cs)))
      \<and> counter_of (snd (DBEngine_run p e cs)) t
           = counter_of e t + int (length (ids_of t (fst (DBEngine_run p e cs)))))
   \<and> (\<forall>s t columns. fst (PrimitiveDB_create_table s t columns) = Inr () \<longrightarrow>
        last_id_of (snd (PrimitiveDB_create_table s t columns)) t = 0)
   \<and> (\<forall>e t parts. fst (DBEngine_create_table e t parts) = Inr () \<longrightarrow>
        counter_of (snd (DBEngine_create_table e t parts)) t = 0)
   \<and> (\<forall>s t sv wh. last_id_of (snd (PrimitiveDB_update s t sv wh)) = last_id_of s)
   \<and> (\<forall>s c t wh. last_id_of (snd (PrimitiveDB_delete s c t wh)) = last_id_of s)
   \<and> (\<forall>p e t sp wh. counter_of (snd (DBEngine_update p e t sp wh)) = counter_of e)
   \<and> (\<forall>p e t wh. counter_of (snd (DBEngine_delete p e t wh)) = counter_of e)"
  using PrimitiveDB_run_ids DBEngine_run_ids PrimitiveDB_create_table_last_id
    DBEngine_create_table_counter PrimitiveDB_update_last_id PrimitiveDB_delete_last_id
    DBEngine_update_counter DBEngine_delete_counter
  by (intro conjI allI impI) blast+

theorem insert_ids_monotonic_witness:
  "list_all (\<lambda>c. \<not> touches_table ''users'' c)
      [Insert ''users'' [(''name'', ''Alice''), (''age'', ''30'')],
       Delete True ''users'' None,
       Insert ''users'' [(''name'', ''Bob''), (''age'', ''25'')],
       Update ''users'' [(''age'', ''26'')] None,
       Insert ''users'' [(''name'', ''Carol''), (''age'', ''41'')]]
   \<and> consecutive (last_id_of users_db ''users'')
        (ids_of ''users''
           (fst (PrimitiveDB_run users_db
              [Insert ''users'' [(''name'', ''Alice''), (''age'', ''30'')],
               Delete True ''users'' None,
               Insert ''users'' [(''name'', ''Bob''), (''age'', ''25'')],
               Update ''users'' [(''age'', ''26'')] None,
               Insert ''users'' [(''name'', ''Carol''), (''age'', ''41'')]])))
   \<and> ids_of ''users''
        (fst (PrimitiveDB_run users_db
           [Insert ''users'' [(''name'', ''Alice''), (''age'', ''30'')],
            Delete True ''users'' None,
            Insert ''users'' [(''name'', ''Bob''), (''age'', ''25'')],
            Update ''users'' [(''age'', ''26'')] None,
            Insert ''users'' [(''name'', ''Carol''), (''age'', ''41'')]]))
      = [Some (VInt 1), Some (VInt 2), Some (VInt 3)]
   \<and> list_all (\<lambda>c. \<not> etouches_table ''users'' c)
        [EInsert ''users'' [(''name'', ''Alice''), (''age'', ''30'')],
         EDelete ''users'' None,
         EInsert ''users'' [(''name'', ''Bob''), (''age'', ''25'')],
         EUpdate ''users'' [(''age'', ''26'')] None,
         EInsert ''users'' [(''name'', ''Carol''), (''age'', ''41'')]]
   \<and> consecutive (counter_of users_engine ''users'')
        (ids_of ''users''
           (fst (DBEngine_run (\<lambda>_. Inl PySyntaxError) users_engine
              [EInsert ''users'' [(''name'', ''Alice''), (''age'', ''30'')],
               EDelete ''users'' None,
               EInsert ''users'' [(''name'', ''Bob''), (''age'', ''25'')],
               EUpdate ''users'' [(''age'', ''26'')] None,
               EInsert ''users'' [(''name'', ''Carol''), (''age'', ''41'')]])))
   \<and> ids_of ''users''
        (fst (DBEngine_run (\<lambda>_. Inl PySyntaxError) users_engine
           [EInsert ''users'' [(''name'', ''Alice''), (''age'', ''30'')],
            EDelete ''users'' None,
            EInsert ''users'' [(''name'', ''Bob''), (''age'', ''25'')],
            EUpdate ''users'' [(''age'', ''26'')] None,
            EInsert ''users'' [(''name'', ''Carol''), (''age'', ''41'')]]))
      = [Some (VInt 1), Some (VInt 2), Some (VInt 3)]
   \<and> fst (PrimitiveDB_create_table (PrimitiveDB_init Map.empty Map.empty) ''users''
          [(''name'', ''str''), (''age'', ''int'')]) = Inr ()
   \<and> last_id_of users_db ''users'' = 0
   \<and> fst (DBEngine_create_table DBEngine_open ''users'' [''name:str'', ''age:int'']) = Inr ()
   \<and> counter_of users_engine ''users'' = 0"
proof -
  note T = insert_ids_monotonic
  have a: "\<forall>c \<in> set [Insert ''users'' [(''name'', ''Alice''), (''age'', ''30'')],
                 Delete True ''users'' None,
                 Insert ''users'' [(''name'', ''Bob''), (''age'', ''25'')],
                 Update ''users'' [(''age'', ''26'')] None,
                 Insert ''users'' [(''name'', ''Carol''), (''age'', ''41'')]].
       \<not> touches_table ''users'' c"
    by (simp add: touches_table_def)
  have b: "\<forall>c \<in> set [EInsert ''users'' [(''name'', ''Alice''), (''age'', ''30'')],
                 EDelete ''users'' None,
                 EInsert ''users'' [(''name'', ''Bob''), (''age'', ''25'')],
                 EUpdate ''users'' [(''age'', ''26'')] None,
                 EInsert ''users'' [(''name'', ''Carol''), (''age'', ''41'')]].
       \<not> etouches_table ''users'' c"
    by (simp add: etouches_table_def)
  note p = T[THEN conjunct1, THEN spec[where x = users_db], THEN spec, THEN spec, THEN mp, OF a,
      THEN conjunct1]
  note e = T[THEN conjunct2, THEN conjunct1, THEN spec[where x = "\<lambda>_. Inl PySyntaxError"],
      THEN spec[where x = users_engine], THEN spec, THEN spec, THEN mp, OF b, THEN conjunct1]
  note pc = T[THEN conjunct2, THEN conjunct2, THEN conjunct1, rule_format, OF users_db_created]
  note ec = T[THEN conjunct2, THEN conjunct2, THEN conjunct2, THEN conjunct1, rule_format,
      OF users_engine_created]
  have a': "list_all (\<lambda>c. \<not> touches_table ''users'' c)
      [Insert ''users'' [(''name'', ''Alice''), (''age'', ''30'')],
       Delete True ''users'' None,
       Insert ''users'' [(''name'', ''Bob''), (''age'', ''25'')],
       Update ''users'' [(''age'', ''26'')] None,
       Insert ''users'' [(''name'', ''Carol''), (''age'', ''41'')]]"
    by (simp add: touches_table_def)
  have b': "list_all (\<lambda>c. \<not> etouches_table ''users'' c)
        [EInsert ''users'' [(''name'', ''Alice''), (''age'', ''30'')],
         EDelete ''users'' None,
         EInsert ''users'' [(''name'', ''Bob''), (''age'', ''25'')],
         EUpdate ''users'' [(''age'', ''26'')] None,
         EInsert ''users'' [(''name'', ''Carol''), (''age'', ''41'')]]"
    by (simp add: etouches_table_def)
  show ?thesis
    using a' b' p e pc ec users_db_run_ids users_engine_run_ids users_db_created users_engine_created
    unfolding users_db_def[symmetric] users_engine_def[symmetric]
    by blast
qed

section \<open>The select cache\<close>


lemma ident_t: "ensure_identifier ''t'' = Inr ''t''"
  by code_simp

lemma parse_scalar_cache_examples:
  "parse_scalar ''old'' ''str'' = Inr (VStr ''old'')"
  "parse_scalar ''new'' ''str'' = Inr (VStr ''new'')"
  "parse_scalar ''1'' ''int'' = Inr (VInt 1)"
  by code_simp+

lemmas PrimitiveDB_defs =
  PrimitiveDB_create_table_def PrimitiveDB_drop_table_def PrimitiveDB_insert_def
  PrimitiveDB_select_def PrimitiveDB_init_def select_cached_def compute_def coerce_where_def
  get_table_def touch_def version_of_def load_table_def SUPPORTED_TYPES_def Let_def
  ordering_def get_def py_ge_def num_eq_def

lemma recreated_db_eq:
  "recreated_db =
     \<lparr>meta = [''t'' \<mapsto> \<lparr>schema = [(''name'', ''str'')], last_id = Some 1\<rparr>],
      meta_file = [''t'' \<mapsto> \<lparr>schema = [(''name'', ''str'')], last_id = Some 1\<rparr>],
      versions = [''t'' \<mapsto> 1],
      select_cache = [(''t'', [(''id'', ''>='', VInt 1)], 1) \<mapsto> [[''name'' \<mapsto> VStr ''old'', ''id'' \<mapsto> VInt 1]]],
      data_files = [''t'' \<mapsto> [[''name'' \<mapsto> VStr ''new'', ''id'' \<mapsto> VInt 1]]]\<rparr>"
  by (simp add: recreated_db_def recreate_history_def id_from_1_def PrimitiveDB_defs ident_t
      parse_scalar_cache_examples)

lemma recreated_db_select:
  "fst (PrimitiveDB_select recreated_db ''t'' id_from_1)
     = Inr \<lparr>rows = [[''name'' \<mapsto> VStr ''old'', ''id'' \<mapsto> VInt 1]], from_cache = True\<rparr>"
  by (simp add: recreated_db_eq id_from_1_def PrimitiveDB_defs ident_t parse_scalar_cache_examples)

lemma recreated_db_compute:
  "compute recreated_db ''t'' [(''id'', ''>='', VInt 1)]
     = Inr [[''name'' \<mapsto> VStr ''new'', ''id'' \<mapsto> VInt 1]]"
  by (simp add: recreated_db_eq PrimitiveDB_defs)

lemma reread_db_eq:
  "reread_db =
     \<lparr>meta = [''t'' \<mapsto> \<lparr>schema = [(''name'', ''str'')], last_id = Some 0\<rparr>],
      meta_file = [''t'' \<mapsto> \<lparr>schema = [(''name'', ''str'')], last_id = Some 0\<rparr>],
      versions = [''t'' \<mapsto> 0],
      select_cache = [(''t'', [], 1) \<mapsto> [[''name'' \<mapsto> VStr ''old'', ''id'' \<mapsto> VInt 1]],
                      (''t'', [], 0) \<mapsto> []],
      data_files = [''t'' \<mapsto> []]\<rparr>"
  by (simp add: reread_db_def reread_history_def PrimitiveDB_defs ident_t
      parse_scalar_cache_examples)

lemma reread_db_insert:
  "PrimitiveDB_insert reread_db ''t'' [(''name'', ''new'')] =
     (Inr [''name'' \<mapsto> VStr ''new'', ''id'' \<mapsto> VInt 1],
      \<lparr>meta = [''t'' \<mapsto> \<lparr>schema = [(''name'', ''str'')], last_id = Some 1\<rparr>],
       meta_file = [''t'' \<mapsto> \<lparr>schema = [(''name'', ''str'')], last_id = Some 1\<rparr>],
       versions = [''t'' \<mapsto> 1],
       select_cache = [(''t'', [], 1) \<mapsto> [[''name'' \<mapsto> VStr ''old'', ''id'' \<mapsto> VInt 1]],
                       (''t'', [], 0) \<mapsto> []],
       data_files = [''t'' \<mapsto> [[''name'' \<mapsto> VStr ''new'', ''id'' \<mapsto> VInt 1]]]\<rparr>)"
  by (simp add: reread_db_eq PrimitiveDB_defs ident_t parse_scalar_cache_examples)

lemma select_cached_repeat:
  "fst (select_cached s t k v c) = Inr res \<Longrightarrow>
   fst (select_cached (snd (select_cached s t k v c)) t k v c') = Inr \<lparr>rows = rows res, from_cache = True\<rparr>"
  by (auto simp: select_cached_def split: option.splits sum.splits)

lemma select_cached_frame:
  "meta (snd (select_cached s t k v c)) = meta s"
  "versions (snd (select_cached s t k v c)) = versions s"
  by (auto simp: select_cached_def split: option.splits sum.splits)

lemma PrimitiveDB_select_repeat:
  assumes "fst (PrimitiveDB_select s t wh) = Inr res"
  shows "fst (PrimitiveDB_select (snd (PrimitiveDB_select s t wh)) t wh)
           = Inr \<lparr>rows = rows res, from_cache = True\<rparr>"
proof -
  from assms obtain i where i: "ensure_identifier t = Inr i"
    by (cases "ensure_identifier t") (simp_all add: PrimitiveDB_select_def)
  from assms i obtain info where g: "get_table s t = Inr info"
    by (cases "get_table s t") (simp_all add: PrimitiveDB_select_def)
  from assms i g obtain pw where pw: "coerce_where s t wh = Inr pw"
    by (cases "coerce_where s t wh") (simp_all add: PrimitiveDB_select_def)
  let ?s' = "snd (select_cached s t pw (version_of s t) (compute s t pw))"
  have sel: "PrimitiveDB_select s t wh = select_cached s t pw (version_of s t) (compute s t pw)"
    by (simp add: PrimitiveDB_select_def i g pw)
  have m: "meta ?s' = meta s" and v: "versions ?s' = versions s"
    by (rule select_cached_frame)+
  have g': "get_table ?s' t = Inr info" using g by (simp add: get_table_def m)
  have "coerce_where ?s' t wh = coerce_where s t wh"
    unfolding coerce_where_def g g' by simp
  then have pw': "coerce_where ?s' t wh = Inr pw" using pw by simp
  have v': "version_of ?s' t = version_of s t" by (simp add: version_of_def select_cached_frame)
  have "PrimitiveDB_select ?s' t wh = select_cached ?s' t pw (version_of s t) (compute ?s' t pw)"
    by (simp add: PrimitiveDB_select_def i g' pw' v')
  then show ?thesis
    using select_cached_repeat[of s t pw "version_of s t" "compute s t pw" res "compute ?s' t pw"] assms
    by (simp add: sel)
qed

lemma PrimitiveDB_drop_table_cache:
  "select_cache (snd (PrimitiveDB_drop_table s c t)) = select_cache s"
  by (auto simp: PrimitiveDB_drop_table_def Let_def split: sum.splits)

lemma PrimitiveDB_create_table_cache:
  "select_cache (snd (PrimitiveDB_create_table s t columns)) = select_cache s"
  by (auto simp: PrimitiveDB_create_table_def Let_def split: sum.splits)

lemma PrimitiveDB_create_table_version:
  "fst (PrimitiveDB_create_table s t columns) = Inr () \<Longrightarrow>
   version_of (snd (PrimitiveDB_create_table s t columns)) t = 0"
  by (auto simp: PrimitiveDB_create_table_def Let_def version_of_def split: sum.splits if_splits)

text \<open>
  C9. Two selects in a row with the same table and where-clause give the same rows, the
  second from the cache (\<open>PrimitiveDB_select_repeat\<close>). The second half of the claim
  fails on the history \<open>reread_history\<close>: the table \<open>t\<close> was read at version 1, dropped,
  created again and read at version 0. A select now returns no rows; an insert succeeds
  and raises the version to 1; the same select then returns the row of the dropped
  table, marked as served from the cache, while the linear scan of the stored rows
  gives the row just inserted.
\<close>

theorem select_after_insert_serves_dropped_rows:
  "fst (PrimitiveDB_select reread_db ''t'' None) = Inr \<lparr>rows = [], from_cache = True\<rparr>
   \<and> fst (PrimitiveDB_insert reread_db ''t'' [(''name'', ''new'')])
        = Inr [''name'' \<mapsto> VStr ''new'', ''id'' \<mapsto> VInt 1]
   \<and> version_of (snd (PrimitiveDB_insert reread_db ''t'' [(''name'', ''new'')])) ''t''
        = version_of reread_db ''t'' + 1
   \<and> fst (PrimitiveDB_select (snd (PrimitiveDB_insert reread_db ''t'' [(''name'', ''new'')])) ''t'' None)
        = Inr \<lparr>rows = [[''name'' \<mapsto> VStr ''old'', ''id'' \<mapsto> VInt 1]], from_cache = True\<rparr>
   \<and> compute (snd (PrimitiveDB_insert reread_db ''t'' [(''name'', ''new'')])) ''t'' []
        = Inr [[''name'' \<mapsto> VStr ''new'', ''id'' \<mapsto> VInt 1]]
   \<and> VStr ''old'' \<noteq> VStr ''new''"
proof -
  have "fst (PrimitiveDB_select reread_db ''t'' None) = Inr \<lparr>rows = [], from_cache = True\<rparr>"
    by (simp add: reread_db_eq PrimitiveDB_defs ident_t)
  moreover have "version_of reread_db ''t'' = 0"
    by (simp add: reread_db_eq version_of_def)
  ultimately show ?thesis
    unfolding reread_db_insert
    by (simp add: PrimitiveDB_defs ident_t)
qed

text \<open>
  C10. \<open>drop_table\<close> and \<open>create_table\<close> leave the select cache as it is, and a table
  that has been created has the version 0. On the history \<open>recreate_history\<close> (fill
  \<open>t\<close>, select \<open>id>=1\<close> at version 1, drop \<open>t\<close>, create it again, insert once, which
  brings the version back to 1) the same select returns the row of the dropped table,
  marked as served from the cache, and not the row that the table now holds.
\<close>

theorem cache_survives_drop_and_create:
  "(\<forall>s c t. select_cache (snd (PrimitiveDB_drop_table s c t)) = select_cache s)
   \<and> (\<forall>s t columns. select_cache (snd (PrimitiveDB_create_table s t columns)) = select_cache s)
   \<and> (\<forall>s t columns. fst (PrimitiveDB_create_table s t columns) = Inr () \<longrightarrow>
         version_of (snd (PrimitiveDB_create_table s t columns)) t = 0)
   \<and> fst (PrimitiveDB_select recreated_db ''t'' id_from_1)
        = Inr \<lparr>rows = [[''name'' \<mapsto> VStr ''old'', ''id'' \<mapsto> VInt 1]], from_cache = True\<rparr>
   \<and> compute recreated_db ''t'' [(''id'', ''>='', VInt 1)]
        = Inr [[''name'' \<mapsto> VStr ''new'', ''id'' \<mapsto> VInt 1]]
   \<and> VStr ''old'' \<noteq> VStr ''new''"
  using PrimitiveDB_drop_table_cache PrimitiveDB_create_table_cache PrimitiveDB_create_table_version
    recreated_db_select recreated_db_compute
  by simp

theorem cache_survives_drop_and_create_witness:
  "fst (PrimitiveDB_create_table (PrimitiveDB_init Map.empty Map.empty) ''t'' [(''name'', ''str'')])
     = Inr ()
   \<and> version_of
        (snd (PrimitiveDB_create_table (PrimitiveDB_init Map.empty Map.empty) ''t'' [(''name'', ''str'')]))
        ''t'' = 0"
proof -
  have h: "fst (PrimitiveDB_create_table (PrimitiveDB_init Map.empty Map.empty) ''t'' [(''name'', ''str'')])
     = Inr ()"
    by (simp add: PrimitiveDB_defs ident_t)
  from cache_survives_drop_and_create[THEN conjunct2, THEN conjunct2, THEN conjunct1, rule_format, OF h] h
  show ?thesis by simp
qed

section \<open>Grammar B: validation and evaluation\<close>


lemma check_node_WhereError: "check_node n = Inr () \<or> check_node n = Inl WhereError"
  by (cases n rule: check_node.cases) simp_all

lemma check_nodes_ok: "(check_nodes ns = Inr ()) = (\<forall>n \<in> set ns. check_node n = Inr ())"
proof (induction ns)
  case Nil
  then show ?case by simp
next
  case (Cons n ns)
  then show ?case using check_node_WhereError[of n] by (auto split: sum.splits)
qed

lemma check_nodes_WhereError: "check_nodes ns = Inr () \<or> check_nodes ns = Inl WhereError"
proof (induction ns)
  case Nil
  then show ?case by simp
next
  case (Cons n ns)
  then show ?case using check_node_WhereError[of n] by (auto split: sum.splits)
qed

lemma check_node_spec_allowed: "check_node n = Inr () \<Longrightarrow> spec_allowed n"
  by (cases n rule: check_node.cases)
    (auto simp: ALLOWED_CMPOPS_def list_ex_iff list_all_iff split: if_splits)

lemma walk_queue: "set q \<subseteq> set (walk q)"
  by (induction q rule: walk.induct) auto

lemma walk_children: "n \<in> set (walk q) \<Longrightarrow> set (iter_child_nodes n) \<subseteq> set (walk q)"
proof (induction q rule: walk.induct)
  case 1
  then show ?case by simp
next
  case (2 m todo)
  show ?case
  proof (cases "n = m")
    case True
    have "set (iter_child_nodes m) \<subseteq> set (walk (todo @ iter_child_nodes m))"
      using walk_queue[of "todo @ iter_child_nodes m"] by simp
    with True show ?thesis by auto
  next
    case False
    with 2 show ?thesis by auto
  qed
qed

lemma validate_ast_rejects:
  assumes "list_ex (\<lambda>n. \<not> spec_allowed n) (walk [Expression body])"
  shows "validate_ast (Expression body) = Inl WhereError"
proof -
  from assms obtain n where "n \<in> set (walk [Expression body])" "\<not> spec_allowed n"
    by (auto simp: list_ex_iff)
  then have "check_nodes (walk [Expression body]) \<noteq> Inr ()"
    unfolding check_nodes_ok using check_node_spec_allowed by blast
  then show ?thesis
    unfolding validate_ast_def using check_nodes_WhereError[of "walk [Expression body]"] by blast
qed

lemma compile_where_rejects:
  assumes "strip expr \<noteq> []" and "ast_parse (normalize expr) = Inr body"
    and "list_ex (\<lambda>n. \<not> spec_allowed n) (walk [Expression body])"
  shows "compile_where ast_parse expr = Inl WhereError"
  using assms(1,2) validate_ast_rejects[OF assms(3)] by (simp add: compile_where_def)

lemma injected_not_allowed: "injected e \<Longrightarrow> \<not> spec_allowed (ExprNode e)"
  by (cases e) simp_all

lemma validate_ast_only_names_and_constants:
  assumes "validate_ast (Expression body) = Inr ()" and "compile_code body = Inr code"
  shows "code = body \<and> ((\<exists>i. body = Name i Load \<and> i \<notin> {''None'', ''True'', ''False''}) \<or> (\<exists>v. body = Constant v))"
proof -
  have root: "ExprNode body \<in> set (walk [Expression body])"
    using walk_queue[of "[ExprNode body]"] by simp
  then have kids: "set (iter_child_nodes (ExprNode body)) \<subseteq> set (walk [Expression body])"
    by (rule walk_children)
  from assms(1) have ok: "\<forall>n \<in> set (walk [Expression body]). check_node n = Inr ()"
    by (simp only: validate_ast_def check_nodes_ok)
  from assms(2) have cc: "\<forall>n \<in> set (walk [Expression body]). \<not> compile_rejects n" and code: "code = body"
    by (auto simp: compile_code_def list_ex_iff simp del: walk.simps split: if_splits)
  have r1: "check_node (ExprNode body) = Inr ()" and r2: "\<not> compile_rejects (ExprNode body)"
    using ok cc root by blast+
  have k: "\<forall>n \<in> set (iter_child_nodes (ExprNode body)). check_node n = Inr ()"
    using ok kids by blast
  show ?thesis
  proof (cases body)
    case (BoolOp b vs)
    with k show ?thesis by simp
  next
    case (Compare l ops cs)
    with k r2 show ?thesis by (cases ops) auto
  next
    case (Name i c)
    with k r2 code show ?thesis by (cases c) auto
  next
    case (Constant v)
    with code show ?thesis by simp
  qed (use r1 in simp_all)
qed

lemma predicate_Name:
  assumes "i \<notin> {''True'', ''False''}"
  shows "predicate (Name i Load) r =
    (if i = ''__debug__'' then Inr True
     else case r i of
            Some v \<Rightarrow> Inr (truthy v)
          | None \<Rightarrow> if i = ''__builtins__'' then Inr False else Inl PyNameError)"
  using assms by (auto simp: predicate_def split: option.splits)

lemma predicate_Constant: "predicate (Constant v) r = Inr (truthy v)"
  by (simp add: predicate_def)

lemma validate_ast_Name: "validate_ast (Expression (Name i Load)) = Inr ()"
  by (simp add: validate_ast_def)

lemma validate_ast_Constant: "validate_ast (Expression (Constant v)) = Inr ()"
  by (simp add: validate_ast_def)

lemma validate_ast_rejects_node:
  assumes "n \<in> set (walk [Expression body])" and "check_node n \<noteq> Inr ()"
  shows "validate_ast (Expression body) = Inl WhereError"
proof -
  from assms have "check_nodes (walk [Expression body]) \<noteq> Inr ()"
    unfolding check_nodes_ok by blast
  then show ?thesis
    unfolding validate_ast_def using check_nodes_WhereError[of "walk [Expression body]"] by blast
qed

lemma walk_root_children:
  "set (iter_child_nodes (ExprNode body)) \<subseteq> set (walk [Expression body])"
proof -
  have "ExprNode body \<in> set (walk [Expression body])"
    using walk_queue[of "[ExprNode body]"] by simp
  then show ?thesis by (rule walk_children)
qed

lemma validate_ast_rejects_Compare:
  assumes "ops \<noteq> []"
  shows "validate_ast (Expression (Compare l ops cs)) = Inl WhereError"
proof -
  have "CmpopNode (hd ops) \<in> set (iter_child_nodes (ExprNode (Compare l ops cs)))"
    using assms by (cases ops) simp_all
  then have "CmpopNode (hd ops) \<in> set (walk [Expression (Compare l ops cs)])"
    using walk_root_children by blast
  then show ?thesis by (rule validate_ast_rejects_node) simp
qed

lemma validate_ast_rejects_BoolOp:
  "validate_ast (Expression (BoolOp b vs)) = Inl WhereError"
proof -
  have "BoolopNode b \<in> set (iter_child_nodes (ExprNode (BoolOp b vs)))" by simp
  then have "BoolopNode b \<in> set (walk [Expression (BoolOp b vs)])"
    using walk_root_children by blast
  then show ?thesis by (rule validate_ast_rejects_node) simp
qed

lemma compile_where_predicate:
  assumes "strip expr \<noteq> []" and "ast_parse (normalize expr) = Inr body"
    and "compile_where ast_parse expr = Inr pred"
  shows "pred = predicate body
    \<and> ((\<exists>i. body = Name i Load \<and> i \<notin> {''None'', ''True'', ''False''}) \<or> (\<exists>v. body = Constant v))"
proof -
  from assms have v: "validate_ast (Expression body) = Inr ()"
    by (cases "validate_ast (Expression body)") (simp_all add: compile_where_def)
  with assms obtain code where c: "compile_code body = Inr code" and p: "pred = predicate code"
    by (cases "compile_code body") (auto simp: compile_where_def)
  from validate_ast_only_names_and_constants[OF v c] p show ?thesis by simp
qed

lemma compiled_predicate_result:
  assumes "strip expr \<noteq> []" and "ast_parse (normalize expr) = Inr body"
    and "compile_where ast_parse expr = Inr pred"
  shows "if list_all (name_bound r) (walk [Expression body])
         then \<exists>b. pred r = Inr b else pred r = Inl PyNameError"
proof -
  from compile_where_predicate[OF assms]
  consider i where "pred = predicate (Name i Load)" "body = Name i Load" "i \<notin> {''None'', ''True'', ''False''}"
    | v where "pred = predicate (Constant v)" "body = Constant v"
    by blast
  then show ?thesis
  proof cases
    case 1
    then have "i \<notin> {''True'', ''False''}" by simp
    from predicate_Name[OF this, of r] 1(1,2) show ?thesis
      by (auto split: option.splits)
  next
    case 2
    then show ?thesis by (simp add: predicate_Constant)
  qed
qed

lemma compile_where_blank:
  assumes "strip expr = []" and "compile_where ast_parse expr = Inr pred"
  shows "pred r = Inr True"
  using assms by (auto simp: compile_where_def)

lemma example_texts:
  "normalize ''age > len(name)'' = ''age > len(name)''"
  "normalize ''name.upper'' = ''name.upper''"
  "normalize ''age + 1'' = ''age + 1''"
  "normalize ''foo'' = ''foo''"
  "normalize ''active'' = ''active''"
  "strip ''age > len(name)'' \<noteq> []"
  "strip ''name.upper'' \<noteq> []"
  "strip ''age + 1'' \<noteq> []"
  "strip ''foo'' \<noteq> []"
  "strip ''active'' \<noteq> []"
  by code_simp+

text \<open>
  The validation rejects more than the foreign constructs. \<open>ast.walk\<close> also yields the
  operator objects, whose classes \<open>_validate_ast\<close> does not list, so the where-text
  \<open>age>=30\<close>, like every comparison and every \<open>and\<close>/\<open>or\<close>, raises \<open>WhereError\<close>
  (\<open>validate_ast_rejects_Compare\<close>, \<open>validate_ast_rejects_BoolOp\<close>).
\<close>

lemma compile_where_rejects_comparison:
  "compile_where example_parse ''age>=30'' = Inl WhereError"
proof -
  have "strip ''age>=30'' \<noteq> []" and "normalize ''age>=30'' = ''age>=30''"
    by code_simp+
  then show ?thesis
    by (simp add: compile_where_def example_parse_def validate_ast_rejects_Compare)
qed

text \<open>
  C1. If the tree that the parser returns for the normalised where-text holds a node that
  is not the wrapper, an \<open>and\<close>/\<open>or\<close>, a comparison with the six operators, a name or
  a constant (or an operator or \<open>Load\<close> object of one of these), \<open>compile_where\<close> raises
  \<open>WhereError\<close>: it returns no predicate, and nothing is evaluated on any record. This
  holds in particular when a call, an attribute access, a subscript, an arithmetic
  operation or an assignment expression occurs anywhere in the tree.
\<close>

theorem compile_where_fails_closed:
  "(\<forall>ast_parse expr body.
      strip expr \<noteq> [] \<and> ast_parse (normalize expr) = Inr body
      \<and> list_ex (\<lambda>n. \<not> spec_allowed n) (walk [Expression body])
      \<longrightarrow> compile_where ast_parse expr = Inl WhereError
          \<and> (\<forall>r. apply_where ast_parse expr r = Inl WhereError))
   \<and> (\<forall>ast_parse expr body e.
      strip expr \<noteq> [] \<and> ast_parse (normalize expr) = Inr body
      \<and> ExprNode e \<in> set (walk [Expression body]) \<and> injected e
      \<longrightarrow> compile_where ast_parse expr = Inl WhereError
          \<and> (\<forall>r. apply_where ast_parse expr r = Inl WhereError))"
proof (intro conjI allI impI)
  fix ast_parse :: "string \<Rightarrow> error + expr" and expr body
  assume a: "strip expr \<noteq> [] \<and> ast_parse (normalize expr) = Inr body
      \<and> list_ex (\<lambda>n. \<not> spec_allowed n) (walk [Expression body])"
  then show c: "compile_where ast_parse expr = Inl WhereError"
    using compile_where_rejects by blast
  fix r show "apply_where ast_parse expr r = Inl WhereError"
    by (simp add: apply_where_def c)
next
  fix ast_parse :: "string \<Rightarrow> error + expr" and expr body e
  assume a: "strip expr \<noteq> [] \<and> ast_parse (normalize expr) = Inr body
      \<and> ExprNode e \<in> set (walk [Expression body]) \<and> injected e"
  then have "list_ex (\<lambda>n. \<not> spec_allowed n) (walk [Expression body])"
    unfolding list_ex_iff using injected_not_allowed by blast
  with a show c: "compile_where ast_parse expr = Inl WhereError"
    using compile_where_rejects by blast
  fix r show "apply_where ast_parse expr r = Inl WhereError"
    by (simp add: apply_where_def c)
qed

theorem compile_where_fails_closed_witness:
  "strip ''age > len(name)'' \<noteq> []
   \<and> example_parse (normalize ''age > len(name)'')
        = Inr (Compare (Name ''age'' Load) [Gt] [Call (Name ''len'' Load) [Name ''name'' Load] []])
   \<and> list_ex (\<lambda>n. \<not> spec_allowed n)
        (walk [Expression (Compare (Name ''age'' Load) [Gt] [Call (Name ''len'' Load) [Name ''name'' Load] []])])
   \<and> compile_where example_parse ''age > len(name)'' = Inl WhereError
   \<and> apply_where example_parse ''age > len(name)'' [''age'' \<mapsto> VInt 30, ''name'' \<mapsto> VStr ''Alice'']
        = Inl WhereError
   \<and> strip ''name.upper'' \<noteq> []
   \<and> example_parse (normalize ''name.upper'') = Inr (Attribute (Name ''name'' Load) ''upper'' Load)
   \<and> ExprNode (Attribute (Name ''name'' Load) ''upper'' Load)
        \<in> set (walk [Expression (Attribute (Name ''name'' Load) ''upper'' Load)])
   \<and> injected (Attribute (Name ''name'' Load) ''upper'' Load)
   \<and> compile_where example_parse ''name.upper'' = Inl WhereError"
proof -
  note T = compile_where_fails_closed
  have a: "strip ''age > len(name)'' \<noteq> []"
    and b: "example_parse (normalize ''age > len(name)'')
        = Inr (Compare (Name ''age'' Load) [Gt] [Call (Name ''len'' Load) [Name ''name'' Load] []])"
    by (simp_all add: example_texts example_parse_def)
  have c: "list_ex (\<lambda>n. \<not> spec_allowed n)
        (walk [Expression (Compare (Name ''age'' Load) [Gt] [Call (Name ''len'' Load) [Name ''name'' Load] []])])"
    by simp
  have d: "strip ''name.upper'' \<noteq> []"
    and e: "example_parse (normalize ''name.upper'') = Inr (Attribute (Name ''name'' Load) ''upper'' Load)"
    by (simp_all add: example_texts example_parse_def)
  have f: "ExprNode (Attribute (Name ''name'' Load) ''upper'' Load)
        \<in> set (walk [Expression (Attribute (Name ''name'' Load) ''upper'' Load)])"
    and g: "injected (Attribute (Name ''name'' Load) ''upper'' Load)"
    by simp_all
  from a b c have abc: "strip ''age > len(name)'' \<noteq> []
      \<and> example_parse (normalize ''age > len(name)'')
        = Inr (Compare (Name ''age'' Load) [Gt] [Call (Name ''len'' Load) [Name ''name'' Load] []])
      \<and> list_ex (\<lambda>n. \<not> spec_allowed n)
        (walk [Expression (Compare (Name ''age'' Load) [Gt] [Call (Name ''len'' Load) [Name ''name'' Load] []])])"
    by (intro conjI)
  note r1 = T[THEN conjunct1, THEN spec[where x = example_parse],
      THEN spec[where x = "''age > len(name)''"],
      THEN spec[where x = "Compare (Name ''age'' Load) [Gt] [Call (Name ''len'' Load) [Name ''name'' Load] []]"],
      THEN mp, OF abc]
  from r1 have 1: "compile_where example_parse ''age > len(name)'' = Inl WhereError"
    by (rule conjunct1)
  from r1[THEN conjunct2, THEN spec[where x = "[''age'' \<mapsto> VInt 30, ''name'' \<mapsto> VStr ''Alice'']"]]
  have 2: "apply_where example_parse ''age > len(name)'' [''age'' \<mapsto> VInt 30, ''name'' \<mapsto> VStr ''Alice'']
        = Inl WhereError" .
  from d e f g have defg: "strip ''name.upper'' \<noteq> []
      \<and> example_parse (normalize ''name.upper'') = Inr (Attribute (Name ''name'' Load) ''upper'' Load)
      \<and> ExprNode (Attribute (Name ''name'' Load) ''upper'' Load)
        \<in> set (walk [Expression (Attribute (Name ''name'' Load) ''upper'' Load)])
      \<and> injected (Attribute (Name ''name'' Load) ''upper'' Load)"
    by (intro conjI)
  note r2 = T[THEN conjunct2, THEN spec[where x = example_parse],
      THEN spec[where x = "''name.upper''"],
      THEN spec[where x = "Attribute (Name ''name'' Load) ''upper'' Load"],
      THEN spec[where x = "Attribute (Name ''name'' Load) ''upper'' Load"],
      THEN mp, OF defg]
  from r2 have 3: "compile_where example_parse ''name.upper'' = Inl WhereError"
    by (rule conjunct1)
  show ?thesis using a b c d e f g 1 2 3 by (intro conjI)
qed

lemma users_engine_with_row:
  "snd (DBEngine_insert users_engine ''users'' [(''name'', ''Alice''), (''age'', ''30'')]) =
     \<lparr>tables = [''users'' \<mapsto> [(''name'', ''str''), (''age'', ''int'')]],
      counters = [''users'' \<mapsto> 1],
      table_files = [''users'' \<mapsto> [[''name'' \<mapsto> VStr ''Alice'', ''age'' \<mapsto> VInt 30, ''id'' \<mapsto> VInt 1]]]\<rparr>"
  by (simp add: users_engine_eq DBEngine_insert_def engine_schema_def validate_insert_def
      cast_value_examples read_rows_def Let_def)

text \<open>
  C2. The claim fails on the code. The where-text \<open>foo\<close> passes the validation and
  compiles to a predicate, and applying that predicate raises \<open>NameError\<close>: on a record
  without the key \<open>foo\<close>, and so in \<open>select users where foo\<close> on a table that holds one
  row, where the exception leaves \<open>DBEngine.select\<close>.
\<close>

theorem predicate_raises_NameError:
  "validate_ast (Expression (Name ''foo'' Load)) = Inr ()
   \<and> compile_code (Name ''foo'' Load) = Inr (Name ''foo'' Load)
   \<and> apply_where example_parse ''foo'' Map.empty = Inl PyNameError
   \<and> fst (DBEngine_select example_parse
             (snd (DBEngine_insert users_engine ''users'' [(''name'', ''Alice''), (''age'', ''30'')]))
             ''users'' (Some ''foo''))
        = Inl PyNameError"
proof -
  have v: "validate_ast (Expression (Name ''foo'' Load)) = Inr ()" by (rule validate_ast_Name)
  have c: "compile_code (Name ''foo'' Load) = Inr (Name ''foo'' Load)"
    by (simp add: compile_code_def)
  have w: "compile_where example_parse ''foo'' = Inr (predicate (Name ''foo'' Load))"
    by (simp add: compile_where_def example_texts example_parse_def v c)
  have p: "predicate (Name ''foo'' Load) Map.empty = Inl PyNameError"
    by (simp add: predicate_Name)
  have q: "predicate (Name ''foo'' Load)
             [''name'' \<mapsto> VStr ''Alice'', ''age'' \<mapsto> VInt 30, ''id'' \<mapsto> VInt 1] = Inl PyNameError"
    by (simp add: predicate_Name)
  have "fst (DBEngine_select example_parse
             (snd (DBEngine_insert users_engine ''users'' [(''name'', ''Alice''), (''age'', ''30'')]))
             ''users'' (Some ''foo''))
        = Inl PyNameError"
    unfolding users_engine_with_row
    by (simp add: DBEngine_select_def engine_schema_def read_rows_def w q)
  with v c w p show ?thesis by (simp add: apply_where_def)
qed

text \<open>
  C3. The claim fails on the code. The name \<open>missing\<close> passes the validation and the
  record has no such key; the predicate then raises \<open>NameError\<close>, where the null value
  would have made it \<open>False\<close>. The filter of the other engine reads the same record
  with \<open>row.get\<close> and does obtain the null value for the absent field.
\<close>

theorem absent_name_is_not_null:
  "validate_ast (Expression (Name ''missing'' Load)) = Inr ()
   \<and> [''age'' \<mapsto> VInt 30] ''missing'' = None
   \<and> predicate (Name ''missing'' Load) [''age'' \<mapsto> VInt 30] = Inl PyNameError
   \<and> predicate (Name ''missing'' Load) [''age'' \<mapsto> VInt 30] \<noteq> Inr (truthy VNone)
   \<and> get [''age'' \<mapsto> VInt 30] ''missing'' = VNone"
  by (simp add: validate_ast_Name predicate_Name get_def)

end
